theory Spec2Isabelle
  imports Complex_Main
begin

section \<open>JavaScript values\<close>

text \<open>
  A JavaScript string is a sequence of UTF-16 code units; the keywords and messages of the
  source that are not ASCII are written as their code units.  Numbers are \<open>NaN\<close> or an
  exact real: rounding, overflow, the two infinities and the sign of zero of IEEE-754 are
  outside the model.  A cell of a sheet is \<open>undefined\<close>, \<open>null\<close>, a boolean, a number
  or a string.  The reader of the sheet leaves an empty cell out of the row's array: it is
  a hole of the array, and the cell \<open>JUndefined\<close> of a row stands for it.  Reading a
  hole gives \<open>undefined\<close>; \<open>map\<close> and \<open>forEach\<close> skip it; \<open>join\<close> prints it
  as the empty string.
\<close>

type_synonym jsstring = "nat list"

definition ascii :: "string \<Rightarrow> jsstring" where
  "ascii s = map of_char s"

datatype jsnum = NaN | Finite real

datatype jsval = JUndefined | JNull | JBool bool | JNum jsnum | JStr jsstring

text \<open>The truthiness test behind \<open>!x\<close>, \<open>x || y\<close> and \<open>x ? a : b\<close>.\<close>

fun truthy :: "jsval \<Rightarrow> bool" where
  "truthy JUndefined = False"
| "truthy JNull = False"
| "truthy (JBool b) = b"
| "truthy (JNum NaN) = False"
| "truthy (JNum (Finite x)) = (x \<noteq> 0)"
| "truthy (JStr s) = (s \<noteq> [])"

text \<open>
  The built-ins of the JavaScript runtime that the model does not define are taken from a
  host: the Unicode case mappings, the printing of a number that is not an integer,
  \<open>JSON.stringify\<close> of a row, and the time value of a date string.
\<close>

record host =
  toUpperCase :: "jsstring \<Rightarrow> jsstring"
  toLowerCase :: "jsstring \<Rightarrow> jsstring"
  fractionToString :: "real \<Rightarrow> jsstring"
  JSON_stringify :: "jsval list \<Rightarrow> jsstring"
  Date_getTime :: "jsstring \<Rightarrow> real"

fun showNat :: "nat \<Rightarrow> jsstring" where
  "showNat n = (if n < 10 then [48 + n] else showNat (n div 10) @ [48 + n mod 10])"

declare showNat.simps [simp del]

text \<open>\<open>Number::toString\<close>: an integer below \<open>10^21\<close> prints as its decimal digits.\<close>

definition numberToString :: "host \<Rightarrow> real \<Rightarrow> jsstring" where
  "numberToString h x =
     (if x = of_int \<lfloor>x\<rfloor> \<and> \<bar>x\<bar> < 10 ^ 21
      then (if x < 0 then [45] else []) @ showNat (nat \<bar>\<lfloor>x\<rfloor>\<bar>)
      else fractionToString h x)"

text \<open>\<open>String(v)\<close>.\<close>

fun toStr :: "host \<Rightarrow> jsval \<Rightarrow> jsstring" where
  "toStr h JUndefined = ascii ''undefined''"
| "toStr h JNull = ascii ''null''"
| "toStr h (JBool b) = (if b then ascii ''true'' else ascii ''false'')"
| "toStr h (JNum NaN) = ascii ''NaN''"
| "toStr h (JNum (Finite x)) = numberToString h x"
| "toStr h (JStr s) = s"

text \<open>White space and line terminators, as \<open>trim\<close> and \<open>parseFloat\<close> strip them.\<close>

definition isWhiteSpace :: "nat \<Rightarrow> bool" where
  "isWhiteSpace c \<longleftrightarrow>
     (9 \<le> c \<and> c \<le> 13) \<or> c = 32 \<or> c = 160 \<or> c = 5760 \<or> (8192 \<le> c \<and> c \<le> 8202) \<or>
     c = 8232 \<or> c = 8233 \<or> c = 8239 \<or> c = 8287 \<or> c = 12288 \<or> c = 65279"

definition trim :: "jsstring \<Rightarrow> jsstring" where
  "trim s = rev (dropWhile isWhiteSpace (rev (dropWhile isWhiteSpace s)))"

text \<open>\<open>s.includes(k)\<close>: \<open>k\<close> occurs in \<open>s\<close> as a contiguous run of code units.\<close>

fun includesStr :: "jsstring \<Rightarrow> jsstring \<Rightarrow> bool" where
  "includesStr [] k = (k = [])"
| "includesStr (c # cs) k = (take (length k) (c # cs) = k \<or> includesStr cs k)"

text \<open>\<open>xs.join(sep)\<close> on an array of strings.\<close>

fun joinWith :: "jsstring \<Rightarrow> jsstring list \<Rightarrow> jsstring" where
  "joinWith sep [] = []"
| "joinWith sep [s] = s"
| "joinWith sep (s # t # ss) = s @ sep @ joinWith sep (t # ss)"

definition isDigit :: "nat \<Rightarrow> bool" where
  "isDigit c \<longleftrightarrow> 48 \<le> c \<and> c \<le> 57"

definition digitsValue :: "jsstring \<Rightarrow> nat" where
  "digitsValue ds = foldl (\<lambda>a c. 10 * a + (c - 48)) 0 ds"

text \<open>
  \<open>parseFloat\<close>: leading white space is skipped and the longest prefix that is a decimal
  literal (sign, digits, fraction, exponent) is read; no such prefix gives \<open>NaN\<close>.  The
  literal \<open>Infinity\<close>, which has no real value, is read as no number.
\<close>

fun splitSign :: "jsstring \<Rightarrow> bool \<times> jsstring" where
  "splitSign [] = (False, [])"
| "splitSign (c # cs) =
     (if c = 45 then (True, cs) else if c = 43 then (False, cs) else (False, c # cs))"

fun exponentPart :: "jsstring \<Rightarrow> int" where
  "exponentPart [] = 0"
| "exponentPart (c # cs) =
     (if c = 101 \<or> c = 69
      then (let (neg, r) = splitSign cs; ds = takeWhile isDigit r
            in if ds = [] then 0
               else if neg then - int (digitsValue ds) else int (digitsValue ds))
      else 0)"

definition scale10 :: "real \<Rightarrow> int \<Rightarrow> real" where
  "scale10 m e = (if 0 \<le> e then m * 10 ^ nat e else m / 10 ^ nat (- e))"

definition parseFloat :: "jsstring \<Rightarrow> jsnum" where
  "parseFloat s =
     (let (neg, u) = splitSign (dropWhile isWhiteSpace s);
          ip = takeWhile isDigit u;
          r1 = dropWhile isDigit u;
          hasDot = (r1 \<noteq> [] \<and> hd r1 = 46);
          fp = (if hasDot then takeWhile isDigit (tl r1) else []);
          r2 = (if hasDot then dropWhile isDigit (tl r1) else r1)
      in if ip = [] \<and> fp = [] then NaN
         else (let m = real (digitsValue ip) + real (digitsValue fp) / 10 ^ length fp;
                   v = scale10 m (exponentPart r2)
               in Finite (if neg then - v else v)))"

section \<open>Normalizers\<close>

text \<open>
  \<^verbatim>\<open>export const cleanProductCode = (code: any): string => {
    if (!code) return '';
    return String(code).trim().toUpperCase();
  };\<close>
\<close>

definition cleanProductCode :: "host \<Rightarrow> jsval \<Rightarrow> jsstring" where
  "cleanProductCode h code =
     (if \<not> truthy code then [] else toUpperCase h (trim (toStr h code)))"

text \<open>
  \<open>str.match(/\d+/)\<close>: the leftmost longest run of the digits \<open>0\<close> to \<open>9\<close>, if any.
\<close>

definition matchDigits :: "jsstring \<Rightarrow> jsstring option" where
  "matchDigits str =
     (let r = dropWhile (\<lambda>c. \<not> isDigit c) str
      in if r = [] then None else Some (takeWhile isDigit r))"

text \<open>
  \<^verbatim>\<open>export const extractSalesNum = (raw: any): number => {
    if (typeof raw === 'number') return raw;
    if (!raw) return 0;
    const str = String(raw);
    const match = str.match(/\d+/);
    return match ? parseInt(match[0], 10) : 0;
  };\<close>
\<close>

definition extractSalesNum :: "host \<Rightarrow> jsval \<Rightarrow> jsnum" where
  "extractSalesNum h raw =
     (case raw of
        JNum n \<Rightarrow> n
      | _ \<Rightarrow>
          if \<not> truthy raw then Finite 0
          else (case matchDigits (toStr h raw) of
                  None \<Rightarrow> Finite 0
                | Some m \<Rightarrow> Finite (real (digitsValue m))))"

text \<open>
  \<^verbatim>\<open>export const parseDiscount = (raw: any): number => {
    if (!raw) return 10;
    const num = parseFloat(String(raw));
    if (isNaN(num)) return 10;
    return num;
  };\<close>
  The result is never \<open>NaN\<close>, so it is a real.
\<close>

definition parseDiscount :: "host \<Rightarrow> jsval \<Rightarrow> real" where
  "parseDiscount h raw =
     (if \<not> truthy raw then 10
      else (case parseFloat (toStr h raw) of NaN \<Rightarrow> 10 | Finite num \<Rightarrow> num))"

section \<open>Data model\<close>

text \<open>
  \<open>DataType\<close>, \<open>ShoeRecord\<close>, \<open>SalesHistoryItem\<close> and \<open>ArbitrageResult\<close> as the
  source declares them.  The field \<open>id\<close> is \<open>recId\<close> and \<open>size\<close> is \<open>sizeLabel\<close>
  (\<open>id\<close> and \<open>size\<close> are constants of HOL); an absent \<open>sourceFile\<close> is the empty
  string, which is falsy as well.  A stored price or discount is never \<open>NaN\<close>: every
  place that builds a record stores a number it has tested, so these fields are reals;
  \<open>salesNum\<close> is what \<open>extractSalesNum\<close> returned.
\<close>

datatype DataType = MARKET | SUPPLIER | INVENTORY | FUTURE

record ShoeRecord =
  recId :: jsstring
  productCode :: jsstring
  sizeLabel :: jsstring
  price :: real
  discount :: real
  salesRaw :: jsstring
  salesNum :: jsnum
  platform :: jsstring
  sourceFile :: jsstring
  dataType :: DataType
  updateDate :: jsstring

text \<open>
  The object \<open>{ sku, size, price, discount, sales }\<close> of column indices (field \<open>sku\<close> is
  \<open>sku_col\<close>, and so on), \<open>-1\<close> for
  an absent role.
\<close>

record ColumnMap =
  sku_col :: int
  size_col :: int
  price_col :: int
  discount_col :: int
  sales_col :: int

record SavedMapping =
  signature :: jsstring
  colMap :: ColumnMap
  name :: jsstring

type_synonym row = "jsval list"

text \<open>\<open>row[i]\<close>: a read outside the array, or at \<open>-1\<close>, is \<open>undefined\<close>.\<close>

definition cellAt :: "row \<Rightarrow> int \<Rightarrow> jsval" where
  "cellAt r i = (if 0 \<le> i \<and> nat i < length r then r ! nat i else JUndefined)"

section \<open>Header Locator\<close>

text \<open>
  \<^verbatim>\<open>const limit = Math.min(data.length, 20);
  const keywords = [..., 'SKU', ..., 'Product Code', 'Art No', 'ART NO'];
  for (let i = 0; i < limit; i++) {
    const rowStr = JSON.stringify(data[i]).toLowerCase();
    for (const kw of keywords) { if (rowStr.includes(kw.toLowerCase())) return i; }
  }
  return 0;\<close>
\<close>

definition headerKeywords :: "jsstring list" where
  "headerKeywords =
     [[36135, 21495], ascii ''SKU'', [27454, 21495], ascii ''Product Code'',
      ascii ''Art No'', ascii ''ART NO'']"

fun findHeaderLoop :: "host \<Rightarrow> nat \<Rightarrow> row list \<Rightarrow> nat option" where
  "findHeaderLoop h i [] = None"
| "findHeaderLoop h i (r # rs) =
     (let rowStr = toLowerCase h (JSON_stringify h r)
      in if list_ex (\<lambda>kw. includesStr rowStr (toLowerCase h kw)) headerKeywords
         then Some i else findHeaderLoop h (i + 1) rs)"

definition findHeaderRow :: "host \<Rightarrow> row list \<Rightarrow> nat" where
  "findHeaderRow h data = (case findHeaderLoop h 0 (take 20 data) of Some i \<Rightarrow> i | None \<Rightarrow> 0)"

section \<open>Column Mapper\<close>

text \<open>
  \<^verbatim>\<open>const map = { sku: -1, size: -1, price: -1, discount: -1, sales: -1 };
  headerRow.forEach((col, idx) => {
    const c = String(col).trim();
    if ([...].some(k => c.includes(k))) map.sku = idx;
    if ([...].some(k => c.includes(k))) map.size = idx;
    if ([...].some(k => c.includes(k))) map.price = idx;
    if ([...].some(k => c.includes(k))) map.discount = idx;
    if ([...].some(k => c.includes(k))) map.sales = idx;
  });
  return map;\<close>
\<close>

definition matchesAny :: "jsstring list \<Rightarrow> jsstring \<Rightarrow> bool" where
  "matchesAny ks c = list_ex (\<lambda>k. includesStr c k) ks"

definition skuKeywords :: "jsstring list" where
  "skuKeywords =
     [[36135, 21495], ascii ''SKU'', [27454, 21495], ascii ''Product Code'', ascii ''Art No'']"

definition sizeKeywords :: "jsstring list" where
  "sizeKeywords = [[23610, 30721], ascii ''Size'', [30721, 25968]]"

definition priceKeywords :: "jsstring list" where
  "priceKeywords =
     [[24179, 21488, 26368, 20302, 20215], ascii ''Price'', [20215, 26684],
      ascii ''Tag Price'', [29260, 20215], [21407, 20215]]"

definition discountKeywords :: "jsstring list" where
  "discountKeywords =
     [[24179, 21488, 24179, 22343, 19979, 21333, 25240, 25187], [25240, 25187],
      ascii ''Discount'']"

definition salesKeywords :: "jsstring list" where
  "salesKeywords =
     [[38144, 37327], ascii ''Sales'', [32047, 35745, 38144, 37327], [28909, 24230],
      [24211, 23384], ascii ''Quantity'']"

fun detectLoop :: "host \<Rightarrow> nat \<Rightarrow> row \<Rightarrow> ColumnMap \<Rightarrow> ColumnMap" where
  "detectLoop h idx [] m = m"
| "detectLoop h idx (col # cols) m =
     (let c = trim (toStr h col);
          m1 = (if matchesAny skuKeywords c then m\<lparr>sku_col := int idx\<rparr> else m);
          m2 = (if matchesAny sizeKeywords c then m1\<lparr>size_col := int idx\<rparr> else m1);
          m3 = (if matchesAny priceKeywords c then m2\<lparr>price_col := int idx\<rparr> else m2);
          m4 = (if matchesAny discountKeywords c then m3\<lparr>discount_col := int idx\<rparr> else m3);
          m5 = (if matchesAny salesKeywords c then m4\<lparr>sales_col := int idx\<rparr> else m4)
      in detectLoop h (idx + 1) cols m5)"

definition noColumns :: ColumnMap where
  "noColumns = \<lparr> sku_col = - 1, size_col = - 1, price_col = - 1, discount_col = - 1, sales_col = - 1 \<rparr>"

definition autoDetectColumns :: "host \<Rightarrow> row \<Rightarrow> ColumnMap" where
  "autoDetectColumns h headerRow = detectLoop h 0 headerRow noColumns"

section \<open>Record Extractor\<close>

text \<open>The validation messages, template literals of the source, as code units.\<close>

definition rowPrefix :: "nat \<Rightarrow> jsstring \<Rightarrow> jsstring" where
  "rowPrefix i sku = [34892, 32] @ showNat (i + 1) @ ascii '' [SKU: '' @ sku @ ascii '']: ''"

definition priceFormatMsg :: "host \<Rightarrow> nat \<Rightarrow> jsstring \<Rightarrow> jsval \<Rightarrow> jsstring" where
  "priceFormatMsg h i sku pVal =
     rowPrefix i sku @ [20215, 26684, 26684, 24335, 38169, 35823, 32, 40, 20540, 58, 32, 34] @
     toStr h pVal @
     [34, 41, 12290, 24314, 35758, 58, 32, 21435, 38500, 36135, 24065, 31526, 21495, 40, 165,
      47, 36, 41, 25110, 25991, 26412, 65292, 20165, 20445, 30041, 25968, 23383, 12290]"

text \<open>The text between the prefix and the value reads "the price cannot be a negative number".\<close>

definition priceNegativeMsg :: "host \<Rightarrow> nat \<Rightarrow> jsstring \<Rightarrow> jsval \<Rightarrow> jsstring" where
  "priceNegativeMsg h i sku pVal =
     rowPrefix i sku @ [20215, 26684, 19981, 33021, 20026, 36127, 25968, 32, 40, 20540, 58, 32, 34] @
     toStr h pVal @ [34, 41, 12290]"

definition priceMissingMsg :: "nat \<Rightarrow> jsstring \<Rightarrow> jsstring" where
  "priceMissingMsg i sku =
     rowPrefix i sku @
     [20215, 26684, 32570, 22833, 12290, 24066, 22330, 25968, 25454, 24517, 39035, 21253,
      21547, 20215, 26684, 12290]"

definition discountFormatMsg :: "host \<Rightarrow> nat \<Rightarrow> jsstring \<Rightarrow> jsval \<Rightarrow> jsstring" where
  "discountFormatMsg h i sku dVal =
     rowPrefix i sku @ [25240, 25187, 26684, 24335, 38169, 35823, 32, 40, 20540, 58, 32, 34] @
     toStr h dVal @
     [34, 41, 12290, 24314, 35758, 58, 32, 20351, 29992, 25968, 23383, 26684, 24335, 32, 40,
      22914, 32, 54, 46, 53, 32, 34920, 31034, 32, 54, 53, 25240, 41, 12290]"

text \<open>
  Step 1 of the loop body, the price.  The result is the price to store, or \<open>None\<close> where
  the source leaves the iteration with \<open>continue\<close>, and the messages pushed.
  \<^verbatim>\<open>if (map.price !== -1) {
    const pVal = row[map.price];
    if (pVal !== undefined && String(pVal).trim() !== '') {
      const pNum = parseFloat(String(pVal));
      if (isNaN(pNum)) { validationErrors.push(...); if (type === DataType.MARKET) continue; }
      else if (pNum < 0) { validationErrors.push(...); if (type === DataType.MARKET) continue; }
      else { price = pNum; }
    } else if (type === DataType.MARKET) { validationErrors.push(...); continue; }
  }\<close>
\<close>

definition priceStep ::
  "host \<Rightarrow> ColumnMap \<Rightarrow> DataType \<Rightarrow> nat \<Rightarrow> jsstring \<Rightarrow> row \<Rightarrow> real option \<times> jsstring list" where
  "priceStep h m type i sku r =
     (if price_col m \<noteq> - 1 then
        (let pVal = cellAt r (price_col m)
         in if pVal \<noteq> JUndefined \<and> trim (toStr h pVal) \<noteq> [] then
              (case parseFloat (toStr h pVal) of
                 NaN \<Rightarrow> (if type = MARKET then None else Some 0, [priceFormatMsg h i sku pVal])
               | Finite pNum \<Rightarrow>
                   if pNum < 0
                   then (if type = MARKET then None else Some 0, [priceNegativeMsg h i sku pVal])
                   else (Some pNum, []))
            else if type = MARKET then (None, [priceMissingMsg i sku])
            else (Some 0, []))
      else (Some 0, []))"

text \<open>
  Step 2, the discount.
  \<^verbatim>\<open>if (map.discount !== -1) {
    const dVal = row[map.discount];
    if (dVal !== undefined && String(dVal).trim() !== '') {
      const dNum = parseFloat(String(dVal));
      if (isNaN(dNum)) { validationErrors.push(...); if (type === DataType.SUPPLIER) continue; }
      else { discount = parseDiscount(dVal); }
    }
  }\<close>
\<close>

definition discountStep ::
  "host \<Rightarrow> ColumnMap \<Rightarrow> DataType \<Rightarrow> nat \<Rightarrow> jsstring \<Rightarrow> row \<Rightarrow> real option \<times> jsstring list" where
  "discountStep h m type i sku r =
     (if discount_col m \<noteq> - 1 then
        (let dVal = cellAt r (discount_col m)
         in if dVal \<noteq> JUndefined \<and> trim (toStr h dVal) \<noteq> [] then
              (case parseFloat (toStr h dVal) of
                 NaN \<Rightarrow> (if type = SUPPLIER then None else Some 10, [discountFormatMsg h i sku dVal])
               | Finite dNum \<Rightarrow> (Some (parseDiscount h dVal), []))
            else (Some 10, []))
      else (Some 10, []))"

text \<open>
  One iteration of the loop of \<open>extractRecords\<close> at index \<open>i\<close>: the record pushed, if
  any, and the messages pushed.  \<open>today\<close> is the date of the run and \<open>now i\<close> the clock
  read while row \<open>i\<close> is handled.
\<close>

definition extractRow ::
  "host \<Rightarrow> ColumnMap \<Rightarrow> jsstring \<Rightarrow> jsstring \<Rightarrow> DataType \<Rightarrow> jsstring \<Rightarrow> (nat \<Rightarrow> nat) \<Rightarrow>
   nat \<Rightarrow> row \<Rightarrow> ShoeRecord option \<times> jsstring list" where
  "extractRow h m fileName plat type today now i r =
     (if r = [] then (None, [])
      else if sku_col m = - 1 \<or> cellAt r (sku_col m) = JUndefined then (None, [])
      else
        (let sku = cleanProductCode h (cellAt r (sku_col m))
         in if sku = [] then (None, [])
            else
              (case priceStep h m type i sku r of
                 (None, e1) \<Rightarrow> (None, e1)
               | (Some price', e1) \<Rightarrow>
                   (case discountStep h m type i sku r of
                      (None, e2) \<Rightarrow> (None, e1 @ e2)
                    | (Some discount', e2) \<Rightarrow>
                        (let hasSales = (sales_col m \<noteq> - 1 \<and> cellAt r (sales_col m) \<noteq> JUndefined);
                             salesRaw' = (if hasSales then toStr h (cellAt r (sales_col m)) else [48]);
                             salesNum' = (if hasSales then extractSalesNum h (JStr salesRaw') else Finite 0);
                             size' = (if size_col m \<noteq> - 1 \<and> cellAt r (size_col m) \<noteq> JUndefined
                                      then toStr h (cellAt r (size_col m)) else [45])
                         in (Some \<lparr> recId = sku @ [45] @ plat @ [45] @ fileName @ [45] @
                                             showNat i @ [45] @ showNat (now i),
                                     productCode = sku,
                                     sizeLabel = size',
                                     price = price',
                                     discount = discount',
                                     salesRaw = salesRaw',
                                     salesNum = salesNum',
                                     platform = plat,
                                     sourceFile = fileName,
                                     dataType = type,
                                     updateDate = today \<rparr>,
                             e1 @ e2))))))"

text \<open>
  \<^verbatim>\<open>for (let i = headerIndex + 1; i < rawData.length; i++) { const row = rawData[i]; ... }
  return { records: newRecords, errors: validationErrors };\<close>
\<close>

fun extractFrom ::
  "host \<Rightarrow> ColumnMap \<Rightarrow> jsstring \<Rightarrow> jsstring \<Rightarrow> DataType \<Rightarrow> jsstring \<Rightarrow> (nat \<Rightarrow> nat) \<Rightarrow>
   nat \<Rightarrow> row list \<Rightarrow> ShoeRecord list \<times> jsstring list" where
  "extractFrom h m fileName plat type today now i [] = ([], [])"
| "extractFrom h m fileName plat type today now i (r # rs) =
     (let (rec, errs) = extractRow h m fileName plat type today now i r;
          (recs, errss) = extractFrom h m fileName plat type today now (i + 1) rs
      in ((case rec of None \<Rightarrow> [] | Some x \<Rightarrow> [x]) @ recs, errs @ errss))"

definition extractRecords ::
  "host \<Rightarrow> row list \<Rightarrow> nat \<Rightarrow> ColumnMap \<Rightarrow> jsstring \<Rightarrow> jsstring \<Rightarrow> DataType \<Rightarrow> jsstring \<Rightarrow>
   (nat \<Rightarrow> nat) \<Rightarrow> ShoeRecord list \<times> jsstring list" where
  "extractRecords h rawData headerIndex m fileName plat type today now =
     extractFrom h m fileName plat type today now (headerIndex + 1) (drop (headerIndex + 1) rawData)"

section \<open>Ingestion orchestrator\<close>

text \<open>
  The header row and its signature.
  \<^verbatim>\<open>const headerRow = rawData[headerIndex]
    ? rawData[headerIndex].map(c => String(c).trim()) : [];
  const headerSignature = headerRow.join('|');\<close>
  \<open>map\<close> leaves a hole of the row a hole, and \<open>join\<close> prints an element that is a
  hole, \<open>undefined\<close> or \<open>null\<close> as the empty string.
\<close>

definition headerCells :: "host \<Rightarrow> row \<Rightarrow> row" where
  "headerCells h r = map (\<lambda>c. if c = JUndefined then JUndefined else JStr (trim (toStr h c))) r"

definition joinCell :: "host \<Rightarrow> jsval \<Rightarrow> jsstring" where
  "joinCell h c = (if c = JUndefined \<or> c = JNull then [] else toStr h c)"

definition headerSignatureOf :: "host \<Rightarrow> row \<Rightarrow> jsstring" where
  "headerSignatureOf h headerRow = joinWith [124] (map (joinCell h) headerRow)"

text \<open>
  The body of the loop of \<open>handleFileUpload\<close> for one file whose sheet is \<open>rawData\<close>.
  \<^verbatim>\<open>const savedMap = savedMappings.find(m => m.signature === headerSignature);
  let colMap = { sku: -1, size: -1, price: -1, discount: -1, sales: -1 };
  let usedSavedMap = false;
  if (savedMap) { colMap = savedMap.map; usedSavedMap = true; }
  else { colMap = autoDetectColumns(headerRow); }\<close>
  \<open>autoDetectColumns\<close> gets the header row with its holes.  Its \<open>forEach\<close> skips a
  hole; the model tests the text \<open>undefined\<close> for it, which holds none of the keywords,
  so that no index is recorded for a hole either way.
\<close>

definition selectMapping :: "host \<Rightarrow> SavedMapping list \<Rightarrow> row \<Rightarrow> ColumnMap \<times> bool" where
  "selectMapping h savedMappings headerRow =
     (let headerSignature = headerSignatureOf h headerRow
      in case find (\<lambda>m. signature m = headerSignature) savedMappings of
           Some savedMap \<Rightarrow> (colMap savedMap, True)
         | None \<Rightarrow> (autoDetectColumns h headerRow, False))"

text \<open>
  \<^verbatim>\<open>let isComplete = colMap.sku !== -1;
  if (selectedType === DataType.MARKET && colMap.price === -1) { isComplete = false; }
  if ((selectedType === DataType.INVENTORY || selectedType === DataType.FUTURE)
      && colMap.sales === -1) { isComplete = false; }
  if (usedSavedMap) isComplete = true;\<close>
\<close>

definition isComplete :: "DataType \<Rightarrow> ColumnMap \<Rightarrow> bool \<Rightarrow> bool" where
  "isComplete selectedType cm usedSavedMap =
     (let c0 = (sku_col cm \<noteq> - 1);
          c1 = (if selectedType = MARKET \<and> price_col cm = - 1 then False else c0);
          c2 = (if (selectedType = INVENTORY \<or> selectedType = FUTURE) \<and> sales_col cm = - 1
                then False else c1)
      in if usedSavedMap then True else c2)"

datatype fileOutcome =
    FileEmpty
  | AutoExtracted "ShoeRecord list" "jsstring list"
  | NeedsMapping ColumnMap

definition rowAt :: "row list \<Rightarrow> nat \<Rightarrow> row" where
  "rowAt data i = (if i < length data then data ! i else [])"

definition uploadFile ::
  "host \<Rightarrow> SavedMapping list \<Rightarrow> jsstring \<Rightarrow> DataType \<Rightarrow> jsstring \<Rightarrow> (nat \<Rightarrow> nat) \<Rightarrow>
   jsstring \<Rightarrow> row list \<Rightarrow> fileOutcome" where
  "uploadFile h savedMappings selectedPlatform selectedType today now fileName rawData =
     (if rawData = [] then FileEmpty
      else
        (let headerIndex = findHeaderRow h rawData;
             headerRow = headerCells h (rowAt rawData headerIndex);
             (cm, usedSavedMap) = selectMapping h savedMappings headerRow
         in if isComplete selectedType cm usedSavedMap
            then (let (records, errs) =
                        extractRecords h rawData headerIndex cm fileName selectedPlatform
                          selectedType today now
                  in AutoExtracted records errs)
            else NeedsMapping cm))"

text \<open>
  The store after \<open>handleFileUpload\<close> on a batch of files, given as name and sheet.
  \<^verbatim>\<open>if (records.length > 0) { allNewRecords.push(...records); successCount++; }
  ...
  if (allNewRecords.length > 0) {
    setData(prev => {
      const filtered = prev.filter(p =>
        !(p.platform === selectedPlatform && p.dataType === selectedType));
      return [...filtered, ...allNewRecords];
    });
  }\<close>
\<close>

definition recordsOf :: "fileOutcome \<Rightarrow> ShoeRecord list" where
  "recordsOf out = (case out of AutoExtracted records errs \<Rightarrow> records | _ \<Rightarrow> [])"

definition commitUpload :: "jsstring \<Rightarrow> DataType \<Rightarrow> ShoeRecord list \<Rightarrow> ShoeRecord list \<Rightarrow> ShoeRecord list" where
  "commitUpload selectedPlatform selectedType allNewRecords prev =
     (if allNewRecords \<noteq> []
      then filter (\<lambda>p. \<not> (platform p = selectedPlatform \<and> dataType p = selectedType)) prev
           @ allNewRecords
      else prev)"

definition handleFileUpload ::
  "host \<Rightarrow> SavedMapping list \<Rightarrow> jsstring \<Rightarrow> DataType \<Rightarrow> jsstring \<Rightarrow> (nat \<Rightarrow> nat) \<Rightarrow>
   (jsstring \<times> row list) list \<Rightarrow> ShoeRecord list \<Rightarrow> ShoeRecord list" where
  "handleFileUpload h savedMappings selectedPlatform selectedType today now files prev =
     (let allNewRecords =
            concat (map (\<lambda>(fileName, rawData).
                      recordsOf (uploadFile h savedMappings selectedPlatform selectedType today
                                   now fileName rawData)) files)
      in commitUpload selectedPlatform selectedType allNewRecords prev)"

text \<open>
  The store after \<open>handleConfirmMapping\<close> for the pending file \<open>(fileName, rawData,
  guessedHeaderIndex)\<close> and the mapping \<open>m\<close> chosen in the form (its SKU column is chosen,
  or the handler returns before it extracts).
  \<^verbatim>\<open>const { records, errors } = extractRecords(currentMappingFile.rawData,
    currentMappingFile.guessedHeaderIndex, map, currentMappingFile.file.name,
    selectedPlatform, selectedType);
  if (records.length > 0) { setData(prev => [...prev, ...records]); }\<close>
\<close>

definition handleConfirmMapping ::
  "host \<Rightarrow> jsstring \<Rightarrow> DataType \<Rightarrow> jsstring \<Rightarrow> (nat \<Rightarrow> nat) \<Rightarrow>
   jsstring \<times> row list \<times> nat \<Rightarrow> ColumnMap \<Rightarrow> ShoeRecord list \<Rightarrow> ShoeRecord list" where
  "handleConfirmMapping h selectedPlatform selectedType today now pending m prev =
     (case pending of
        (fileName, rawData, guessedHeaderIndex) \<Rightarrow>
          (let (records, errs) =
                 extractRecords h rawData guessedHeaderIndex m fileName selectedPlatform
                   selectedType today now
           in if records \<noteq> [] then prev @ records else prev))"

section \<open>Arbitrage Matcher\<close>

text \<open>
  Arithmetic on the sales counts, which are numbers of the store: \<open>+\<close>, \<open>>\<close> and
  \<open>Math.max\<close> with \<open>NaN\<close>.
\<close>

fun jsAdd :: "jsnum \<Rightarrow> jsnum \<Rightarrow> jsnum" where
  "jsAdd (Finite x) (Finite y) = Finite (x + y)"
| "jsAdd _ _ = NaN"

fun jsGreater :: "jsnum \<Rightarrow> jsnum \<Rightarrow> bool" where
  "jsGreater (Finite x) (Finite y) = (x > y)"
| "jsGreater _ _ = False"

fun jsMax :: "jsnum \<Rightarrow> jsnum \<Rightarrow> jsnum" where
  "jsMax (Finite x) (Finite y) = Finite (max x y)"
| "jsMax _ _ = NaN"

text \<open>\<open>x || 0\<close> on a number: \<open>NaN\<close> and \<open>0\<close> give \<open>0\<close>.\<close>

fun orZero :: "jsnum \<Rightarrow> real" where
  "orZero NaN = 0"
| "orZero (Finite x) = x"

text \<open>The field \<open>file\<close> of a history entry is \<open>file_item\<close>.\<close>

record SalesHistoryItem =
  date :: jsstring
  file_item :: jsstring
  sales :: jsnum
  platform :: jsstring

record ArbitrageResult =
  productCode :: jsstring
  tagPrice :: real
  costPrice :: real
  marketPrice :: real
  netRevenue :: real
  profit :: real
  roi :: real
  supplierName :: jsstring
  supplierDate :: jsstring
  supplierSourceFile :: jsstring
  salesVolume :: jsnum
  salesHistory :: "SalesHistoryItem list"
  inventoryCount :: jsnum
  futureCount :: jsnum

text \<open>The column indices \<open>skuIdx\<close>, \<open>tagPriceIdx\<close>, \<open>discountIdx\<close>, \<open>salesIdx\<close>.\<close>

record PurchaseCols =
  skuIdx :: int
  tagPriceIdx :: int
  discountIdx :: int
  salesIdx :: int

definition tagPriceKeywords :: "jsstring list" where
  "tagPriceKeywords =
     [[29260, 20215], [21407, 20215], ascii ''Tag Price'', ascii ''MSRP'', [21457, 21806, 20215]]"

definition uploadDiscountKeywords :: "jsstring list" where
  "uploadDiscountKeywords = [[25240, 25187], ascii ''Discount'', [19979, 21333, 25240, 25187]]"

definition uploadSalesKeywords :: "jsstring list" where
  "uploadSalesKeywords =
     [[38144, 37327], ascii ''Sales'', [32047, 35745, 38144, 37327],
      [36817, 51, 48, 22825, 38144, 37327], [28909, 24230], [24179, 21488, 38144, 37327]]"

fun purchaseColsLoop :: "nat \<Rightarrow> jsstring list \<Rightarrow> PurchaseCols \<Rightarrow> PurchaseCols" where
  "purchaseColsLoop idx [] c = c"
| "purchaseColsLoop idx (col # cols) c =
     (let c1 = (if matchesAny skuKeywords col then c\<lparr>skuIdx := int idx\<rparr> else c);
          c2 = (if matchesAny tagPriceKeywords col then c1\<lparr>tagPriceIdx := int idx\<rparr> else c1);
          c3 = (if matchesAny uploadDiscountKeywords col then c2\<lparr>discountIdx := int idx\<rparr> else c2);
          c4 = (if matchesAny uploadSalesKeywords col then c3\<lparr>salesIdx := int idx\<rparr> else c3)
      in purchaseColsLoop (idx + 1) cols c4)"

definition purchaseCols :: "jsstring list \<Rightarrow> PurchaseCols" where
  "purchaseCols headerRow =
     purchaseColsLoop 0 headerRow
       \<lparr> skuIdx = - 1, tagPriceIdx = - 1, discountIdx = - 1, salesIdx = - 1 \<rparr>"

text \<open>A \<open>Map\<close> keeps its keys in the order of their first insertion.\<close>

fun mapSet :: "'k \<Rightarrow> 'v \<Rightarrow> ('k \<times> 'v) list \<Rightarrow> ('k \<times> 'v) list" where
  "mapSet k v [] = [(k, v)]"
| "mapSet k v ((k', v') # m) = (if k' = k then (k, v) # m else (k', v') # mapSet k v m)"

text \<open>
  The lookups in the store.
  \<^verbatim>\<open>const marketMatches = masterData.filter(d =>
    d.productCode === sku && d.dataType === DataType.MARKET);
  const marketPrice = marketMatches.length > 0 ? marketMatches[0].price : 0;
  const invCount = masterData
    .filter(d => d.productCode === sku && d.dataType === DataType.INVENTORY)
    .reduce((sum, r) => sum + r.salesNum, 0);\<close>
\<close>

definition marketPriceOf :: "ShoeRecord list \<Rightarrow> jsstring \<Rightarrow> real" where
  "marketPriceOf masterData sku =
     (case filter (\<lambda>d. ShoeRecord.productCode d = sku \<and> dataType d = MARKET) masterData of
        [] \<Rightarrow> 0
      | d # ds \<Rightarrow> price d)"

definition countOf :: "ShoeRecord list \<Rightarrow> DataType \<Rightarrow> jsstring \<Rightarrow> jsnum" where
  "countOf masterData type sku =
     foldl (\<lambda>sum r. jsAdd sum (salesNum r)) (Finite 0)
       (filter (\<lambda>d. ShoeRecord.productCode d = sku \<and> dataType d = type) masterData)"

text \<open>
  \<^verbatim>\<open>const hasUploadDiscount = discountIdx !== -1 && row[discountIdx] !== undefined;
  const effectiveDiscount = hasUploadDiscount ? parseDiscount(row[discountIdx]) : 10;\<close>
\<close>

definition effectiveDiscount :: "host \<Rightarrow> PurchaseCols \<Rightarrow> row \<Rightarrow> real" where
  "effectiveDiscount h c r =
     (if discountIdx c \<noteq> - 1 \<and> cellAt r (discountIdx c) \<noteq> JUndefined
      then parseDiscount h (cellAt r (discountIdx c)) else 10)"

text \<open>\<open>const tagPrice = parseFloat(row[tagPriceIdx]) || 0;\<close>\<close>

definition tagPriceOf :: "host \<Rightarrow> PurchaseCols \<Rightarrow> row \<Rightarrow> real" where
  "tagPriceOf h c r = orZero (parseFloat (toStr h (cellAt r (tagPriceIdx c))))"

text \<open>
  Scenario B, the sales history from the store: the matches are deduplicated by date, file
  and platform, keeping the largest count, and sorted by date, latest first.
\<close>

definition historyKey :: "ShoeRecord \<Rightarrow> jsstring" where
  "historyKey m =
     updateDate m @ [35] @ (if sourceFile m \<noteq> [] then sourceFile m else ascii ''Unknown'') @
     [35] @ ShoeRecord.platform m"

definition historyStep ::
  "(jsstring \<times> SalesHistoryItem) list \<Rightarrow> ShoeRecord \<Rightarrow> (jsstring \<times> SalesHistoryItem) list" where
  "historyStep uniqueHistoryMap m =
     (let item = \<lparr> date = updateDate m,
                   file_item = (if sourceFile m \<noteq> [] then sourceFile m else ascii ''Unknown''),
                   sales = salesNum m,
                   platform = ShoeRecord.platform m \<rparr>
      in case map_of uniqueHistoryMap (historyKey m) of
           None \<Rightarrow> mapSet (historyKey m) item uniqueHistoryMap
         | Some existing \<Rightarrow>
             if jsGreater (salesNum m) (sales existing)
             then mapSet (historyKey m) item uniqueHistoryMap else uniqueHistoryMap)"

definition storeHistory :: "host \<Rightarrow> ShoeRecord list \<Rightarrow> jsstring \<Rightarrow> SalesHistoryItem list" where
  "storeHistory h masterData sku =
     (let historyMatches =
            filter (\<lambda>d. ShoeRecord.productCode d = sku \<and> jsGreater (salesNum d) (Finite 0) \<and>
                        (dataType d = SUPPLIER \<or> dataType d = MARKET)) masterData
      in sort_key (\<lambda>x. - Date_getTime h (date x)) (map snd (foldl historyStep [] historyMatches)))"

text \<open>
  One iteration of the loop of \<open>processArbitrage\<close>: the result built for the row, or
  \<open>None\<close> where the row is skipped.  \<open>Math.max\<close> is applied to a history that is not
  empty; an empty history shows the sales \<open>0\<close>.
\<close>

definition arbitrageRow ::
  "host \<Rightarrow> ShoeRecord list \<Rightarrow> PurchaseCols \<Rightarrow> jsstring \<Rightarrow> jsstring \<Rightarrow> row \<Rightarrow> ArbitrageResult option" where
  "arbitrageRow h masterData c fileName todayDate r =
     (if \<not> truthy (cellAt r (skuIdx c)) then None
      else
        (let sku = cleanProductCode h (cellAt r (skuIdx c))
         in if sku = [] then None
            else
              (let tagPrice' = tagPriceOf h c r;
                   marketPrice' = marketPriceOf masterData sku;
                   invCount = countOf masterData INVENTORY sku;
                   futureCount' = countOf masterData FUTURE sku;
                   hasUploadSales = (salesIdx c \<noteq> - 1 \<and> cellAt r (salesIdx c) \<noteq> JUndefined \<and>
                                     trim (toStr h (cellAt r (salesIdx c))) \<noteq> []);
                   effectiveDiscount' = effectiveDiscount h c r;
                   costPrice' = tagPrice' * (effectiveDiscount' / 10);
                   netRevenue' = (if marketPrice' > 0 then marketPrice' * 0.88 else 0);
                   profit' = (if marketPrice' > 0 then netRevenue' - costPrice' else - costPrice');
                   roi' = (if costPrice' > 0 \<and> marketPrice' > 0 then profit' / costPrice' else 0);
                   uploadSales = extractSalesNum h (cellAt r (salesIdx c));
                   salesHistory' =
                     (if hasUploadSales
                      then [\<lparr> date = todayDate, file_item = fileName, sales = uploadSales,
                               platform = [26412, 27425, 23548, 20837] \<rparr>]
                      else storeHistory h masterData sku);
                   displaySales =
                     (if hasUploadSales then uploadSales
                      else (case map sales salesHistory' of
                              [] \<Rightarrow> Finite 0
                            | x # xs \<Rightarrow> foldl jsMax x xs))
               in Some \<lparr> productCode = sku,
                         tagPrice = tagPrice',
                         costPrice = costPrice',
                         marketPrice = marketPrice',
                         netRevenue = netRevenue',
                         profit = profit',
                         roi = roi',
                         supplierName = (if hasUploadSales then [26412, 27425, 23548, 20837]
                                         else [21382, 21490, 21305, 37197]),
                         supplierDate = todayDate,
                         supplierSourceFile = fileName,
                         salesVolume = displaySales,
                         salesHistory = salesHistory',
                         inventoryCount = invCount,
                         futureCount = futureCount' \<rparr>)))"

text \<open>
  \<^verbatim>\<open>if (!skuMap.has(sku)) { skuMap.set(sku, result); }
  else {
    const existing = skuMap.get(sku)!;
    if (result.profit > existing.profit) { skuMap.set(sku, result); }
  }\<close>
\<close>

definition groupBySku ::
  "ArbitrageResult \<Rightarrow> (jsstring \<times> ArbitrageResult) list \<Rightarrow> (jsstring \<times> ArbitrageResult) list" where
  "groupBySku result skuMap =
     (case map_of skuMap (productCode result) of
        None \<Rightarrow> mapSet (productCode result) result skuMap
      | Some existing \<Rightarrow>
          if profit result > profit existing
          then mapSet (productCode result) result skuMap else skuMap)"

text \<open>The loop over the data rows, with the state \<open>skuMap\<close> and \<open>matchCount\<close>.\<close>

fun arbitrageLoop ::
  "host \<Rightarrow> ShoeRecord list \<Rightarrow> PurchaseCols \<Rightarrow> jsstring \<Rightarrow> jsstring \<Rightarrow> row list \<Rightarrow>
   (jsstring \<times> ArbitrageResult) list \<times> nat \<Rightarrow> (jsstring \<times> ArbitrageResult) list \<times> nat" where
  "arbitrageLoop h masterData c fileName todayDate [] st = st"
| "arbitrageLoop h masterData c fileName todayDate (r # rs) (skuMap, matchCount) =
     (case arbitrageRow h masterData c fileName todayDate r of
        None \<Rightarrow> arbitrageLoop h masterData c fileName todayDate rs (skuMap, matchCount)
      | Some result \<Rightarrow>
          arbitrageLoop h masterData c fileName todayDate rs
            (groupBySku result skuMap,
             if marketPrice result > 0 then matchCount + 1 else matchCount))"

text \<open>
  \<open>processArbitrage\<close> for the sheet \<open>rawData\<close> of the file \<open>fileName\<close>: the message
  shown, or the results set and the count of matched rows.  The rows after the header are
  \<open>rawData[headerRowIndex + 1]\<close> to the last; the final results are the values of
  \<open>skuMap\<close> under \<open>sort((a, b) => b.profit - a.profit)\<close>, a stable sort.  A hole of
  the header row is skipped by \<open>map\<close> and \<open>forEach\<close>; the model tests the text
  \<open>undefined\<close> for it, which holds none of the keywords, so that no index is recorded
  for a hole either way.
\<close>

datatype arbitrageError = EmptyFile | ProcessingFailed | HeaderNotRecognised | NoValidRows

definition processArbitrage ::
  "host \<Rightarrow> ShoeRecord list \<Rightarrow> jsstring \<Rightarrow> jsstring \<Rightarrow> row list \<Rightarrow>
   arbitrageError + ArbitrageResult list \<times> nat" where
  "processArbitrage h masterData fileName todayDate rawData =
     (if rawData = [] then Inl EmptyFile
      else
        (case drop (findHeaderRow h rawData) rawData of
           [] \<Rightarrow> Inl ProcessingFailed
         | header # dataRows \<Rightarrow>
             (let c = purchaseCols (map (\<lambda>c. trim (toStr h c)) header)
              in if skuIdx c = - 1 \<or> tagPriceIdx c = - 1 then Inl HeaderNotRecognised
                 else
                   (let (skuMap, matchCount) =
                          arbitrageLoop h masterData c fileName todayDate dataRows ([], 0)
                    in if skuMap = [] then Inl NoValidRows
                       else Inr (sort_key (\<lambda>r. - profit r) (map snd skuMap), matchCount)))))"

section \<open>Notions used to state the properties\<close>

text \<open>\<open>typeof raw === 'number'\<close>.\<close>

fun isNumber :: "jsval \<Rightarrow> bool" where
  "isNumber (JNum n) = True"
| "isNumber _ = False"

text \<open>A number that is a non-negative integer.\<close>

fun isCount :: "jsnum \<Rightarrow> bool" where
  "isCount NaN = False"
| "isCount (Finite x) = (0 \<le> x \<and> x = of_int \<lfloor>x\<rfloor>)"

text \<open>
  The indices of the header cells whose trimmed text contains one of the keywords \<open>ks\<close>,
  in increasing order, and the index a role gets from them when the first or the last
  match is recorded (\<open>-1\<close> without a match).
\<close>

definition matchingIndices :: "host \<Rightarrow> jsstring list \<Rightarrow> row \<Rightarrow> nat list" where
  "matchingIndices h ks headerRow =
     filter (\<lambda>i. matchesAny ks (trim (toStr h (headerRow ! i)))) [0..<length headerRow]"

definition firstMatch :: "host \<Rightarrow> jsstring list \<Rightarrow> row \<Rightarrow> int" where
  "firstMatch h ks headerRow =
     (case matchingIndices h ks headerRow of [] \<Rightarrow> - 1 | i # is \<Rightarrow> int i)"

definition lastMatch :: "host \<Rightarrow> jsstring list \<Rightarrow> row \<Rightarrow> int" where
  "lastMatch h ks headerRow =
     (case rev (matchingIndices h ks headerRow) of [] \<Rightarrow> - 1 | i # is \<Rightarrow> int i)"

text \<open>
  The columns \<open>processArbitrage\<close> finds in the header row, the rows after the header, and
  the results of the rows that are not skipped, in the order of the rows.
\<close>

definition headerCols :: "host \<Rightarrow> row list \<Rightarrow> PurchaseCols" where
  "headerCols h rawData =
     purchaseCols (map (\<lambda>c. trim (toStr h c)) (rowAt rawData (findHeaderRow h rawData)))"

definition dataRows :: "host \<Rightarrow> row list \<Rightarrow> row list" where
  "dataRows h rawData = drop (findHeaderRow h rawData + 1) rawData"

definition rowResults ::
  "host \<Rightarrow> ShoeRecord list \<Rightarrow> jsstring \<Rightarrow> jsstring \<Rightarrow> row list \<Rightarrow> ArbitrageResult list" where
  "rowResults h masterData fileName todayDate rawData =
     List.map_filter (arbitrageRow h masterData (headerCols h rawData) fileName todayDate)
       (dataRows h rawData)"

text \<open>
  A host for evaluating the model on concrete inputs.  On ASCII text its case mappings and
  its \<open>JSON.stringify\<close> (for strings that need no escape) are those of JavaScript; the
  inputs evaluated below hold no number that is not an integer and no date.
\<close>

definition upperUnit :: "nat \<Rightarrow> nat" where
  "upperUnit c = (if 97 \<le> c \<and> c \<le> 122 then c - 32 else c)"

definition lowerUnit :: "nat \<Rightarrow> nat" where
  "lowerUnit c = (if 65 \<le> c \<and> c \<le> 90 then c + 32 else c)"

fun asciiJsonCell :: "jsval \<Rightarrow> jsstring" where
  "asciiJsonCell (JStr s) = [34] @ s @ [34]"
| "asciiJsonCell (JBool b) = (if b then ascii ''true'' else ascii ''false'')"
| "asciiJsonCell (JNum (Finite x)) =
     (if x < 0 then [45] else []) @ showNat (nat \<bar>\<lfloor>x\<rfloor>\<bar>)"
| "asciiJsonCell _ = ascii ''null''"

definition asciiHost :: host where
  "asciiHost =
     \<lparr> toUpperCase = map upperUnit,
       toLowerCase = map lowerUnit,
       fractionToString = (\<lambda>x. []),
       JSON_stringify = (\<lambda>row. [91] @ joinWith [44] (map asciiJsonCell row) @ [93]),
       Date_getTime = (\<lambda>d. 0) \<rparr>"

text \<open>
  Data for a trace of a re-upload: a stored market-price record of the channel \<open>Dewu\<close>,
  a sheet whose header the Column Mapper does not recognise, and the mapping the user
  chooses for it.
\<close>

definition staleRecord :: ShoeRecord where
  "staleRecord =
     \<lparr> recId = ascii ''A1-Dewu-old.xlsx-1-0'', productCode = ascii ''A1'', sizeLabel = [45],
       price = 100, discount = 10, salesRaw = [48], salesNum = Finite 0,
       ShoeRecord.platform = ascii ''Dewu'', sourceFile = ascii ''old.xlsx'', dataType = MARKET,
       updateDate = ascii ''2024-01-01'' \<rparr>"

definition unmappedSheet :: "row list" where
  "unmappedSheet = [[JStr (ascii ''Code''), JStr (ascii ''Cost'')],
                    [JStr (ascii ''A1''), JStr (ascii ''200'')]]"

definition chosenMap :: ColumnMap where
  "chosenMap = \<lparr> sku_col = 0, size_col = - 1, price_col = 1, discount_col = - 1, sales_col = - 1 \<rparr>"

text \<open>A sheet of prices with a negative and a malformed price, and its mapping.\<close>

definition priceSheet :: "row list" where
  "priceSheet =
     [[JStr (ascii ''SKU''), JStr (ascii ''Price''), JStr (ascii ''Sales'')],
      [JStr (ascii '' ab1 ''), JNum (Finite 200), JStr (ascii ''30+'')],
      [JStr (ascii ''cd2''), JStr (ascii ''-5''), JUndefined],
      [JStr (ascii ''ef3''), JStr (ascii ''x''), JNum (Finite 7)]]"

definition priceSheetMap :: ColumnMap where
  "priceSheetMap = \<lparr> sku_col = 0, size_col = - 1, price_col = 1, discount_col = - 1, sales_col = 2 \<rparr>"

text \<open>
  The state of the grouping after the results \<open>seen\<close>: the keys of \<open>skuMap\<close> are
  distinct, each value is one of the results seen, has the key as its product code and
  the largest profit among the results seen with that code, and every result seen has
  its code among the keys.
\<close>

definition grouped :: "(jsstring \<times> ArbitrageResult) list \<Rightarrow> ArbitrageResult list \<Rightarrow> bool" where
  "grouped sm seen \<longleftrightarrow>
     distinct (map fst sm) \<and>
     (\<forall>k v. map_of sm k = Some v \<longrightarrow>
        productCode v = k \<and> v \<in> set seen \<and>
        (\<forall>x\<in>set seen. productCode x = k \<longrightarrow> profit x \<le> profit v)) \<and>
     (\<forall>x\<in>set seen. map_of sm (productCode x) \<noteq> None)"

text \<open>
  A store with one market price, and two purchase sheets: one with discounts, one that
  lists a SKU twice.
\<close>

definition marketStore :: "real \<Rightarrow> ShoeRecord list" where
  "marketStore p =
     [\<lparr> recId = ascii ''AB1-Dewu-m.xlsx-1-0'', productCode = ascii ''AB1'', sizeLabel = [45],
        price = p, discount = 10, salesRaw = [48], salesNum = Finite 0,
        ShoeRecord.platform = ascii ''Dewu'', sourceFile = ascii ''m.xlsx'', dataType = MARKET,
        updateDate = ascii ''2024-01-01'' \<rparr>]"

definition discountSheet :: "row list" where
  "discountSheet =
     [[JStr (ascii ''SKU''), JStr (ascii ''Tag Price''), JStr (ascii ''Discount'')],
      [JStr (ascii ''ab1''), JNum (Finite 1000), JStr (ascii ''3.6'')],
      [JStr (ascii ''zz9''), JNum (Finite 1000), JStr (ascii ''3.6'')]]"

definition sizesSheet :: "row list" where
  "sizesSheet =
     [[JStr (ascii ''SKU''), JStr (ascii ''Tag Price'')],
      [JStr (ascii ''ab1''), JNum (Finite 120)],
      [JStr (ascii ''AB1''), JNum (Finite 70)],
      [JStr (ascii ''zz9''), JNum (Finite 10)]]"

text \<open>
  A sheet whose header row has an empty cell between \<open>SKU\<close> and \<open>Size\<close>, and a mapping
  remembered for its signature \<open>SKU||Size\<close>; the mapping has no price column.
\<close>

definition gapSheet :: "row list" where
  "gapSheet = [[JStr (ascii ''SKU''), JUndefined, JStr (ascii ''Size'')],
               [JStr (ascii ''A1''), JUndefined, JStr (ascii ''42'')]]"

definition gapMapping :: SavedMapping where
  "gapMapping =
     \<lparr> signature = ascii ''SKU||Size'',
       colMap = \<lparr> sku_col = 0, size_col = 2, price_col = - 1, discount_col = - 1,
                  sales_col = - 1 \<rparr>,
       name = ascii ''saved'' \<rparr>"

section \<open>Properties of the normalizers\<close>

lemma ascii_simps: "ascii [] = []" "ascii (c # cs) = of_char c # ascii cs"
  by (simp_all add: ascii_def)

lemmas eval_defs = parseFloat_def isWhiteSpace_def isDigit_def digitsValue_def scale10_def
  trim_def cellAt_def cleanProductCode_def asciiHost_def upperUnit_def lowerUnit_def
  numberToString_def showNat.simps ascii_def matchesAny_def

lemma digitsValue_snoc: "digitsValue (ds @ [c]) = 10 * digitsValue ds + (c - 48)"
  by (simp add: digitsValue_def)

text \<open>Reading the decimal digits of a number gives the number back.\<close>

lemma digitsValue_showNat: "digitsValue (showNat n) = n"
proof (induction n rule: showNat.induct)
  case (1 n)
  show ?case
  proof (cases "n < 10")
    case True
    then show ?thesis by (subst showNat.simps) (simp add: digitsValue_def)
  next
    case False
    with 1 have "digitsValue (showNat (n div 10)) = n div 10" by simp
    with False show ?thesis
      by (subst showNat.simps) (simp add: digitsValue_snoc)
  qed
qed

lemma matchDigits_none: "\<forall>c\<in>set s. \<not> isDigit c \<Longrightarrow> matchDigits s = None"
  by (simp add: matchDigits_def dropWhile_eq_Nil_conv)

lemma matchDigits_run:
  assumes "\<forall>c\<in>set pre. \<not> isDigit c" and "run \<noteq> []" and "\<forall>c\<in>set run. isDigit c"
    and "post = [] \<or> \<not> isDigit (hd post)"
  shows "matchDigits (pre @ run @ post) = Some run"
proof -
  have d: "dropWhile (\<lambda>c. \<not> isDigit c) (pre @ run @ post) = run @ post"
    using assms(1-3) by (cases run) (simp_all add: dropWhile_append2)
  have t: "takeWhile isDigit (run @ post) = run"
    using assms(3,4) by (cases post) (simp_all add: takeWhile_append2)
  show ?thesis using assms(2) by (simp add: matchDigits_def d t)
qed

lemma extractSalesNum_number: "extractSalesNum h (JNum n) = n"
  by (simp add: extractSalesNum_def)

lemma extractSalesNum_count: "\<not> isNumber raw \<Longrightarrow> isCount (extractSalesNum h raw)"
  by (cases raw) (simp_all add: extractSalesNum_def split: option.splits)

text \<open>
  C4, as the code has it.  \<open>extractSalesNum\<close> returns a number unchanged, whatever the
  number is.  For every input that is not a number the result is a non-negative integer:
  \<open>0\<close> for a falsy input and for a string form without a digit, and otherwise the value
  of the first run of decimal digits of the string form.  The four examples of the
  specification hold.
\<close>

theorem extractSalesNum_spec:
  "extractSalesNum h (JNum n) = n \<and>
   (\<not> isNumber raw \<longrightarrow> isCount (extractSalesNum h raw)) \<and>
   (\<not> isNumber raw \<and> \<not> truthy raw \<longrightarrow> extractSalesNum h raw = Finite 0) \<and>
   (\<not> isNumber raw \<and> (\<forall>c\<in>set (toStr h raw). \<not> isDigit c) \<longrightarrow> extractSalesNum h raw = Finite 0) \<and>
   (\<not> isNumber raw \<and> truthy raw \<and> toStr h raw = pre @ run @ post \<and>
      (\<forall>c\<in>set pre. \<not> isDigit c) \<and> run \<noteq> [] \<and> (\<forall>c\<in>set run. isDigit c) \<and>
      (post = [] \<or> \<not> isDigit (hd post))
    \<longrightarrow> extractSalesNum h raw = Finite (real (digitsValue run))) \<and>
   extractSalesNum h (JStr (ascii ''3000+'' @ [20214])) = Finite 3000 \<and>
   extractSalesNum h (JNum (Finite 150)) = Finite 150 \<and>
   extractSalesNum h (JStr []) = Finite 0 \<and>
   extractSalesNum h (JStr [26080]) = Finite 0"
proof (intro conjI impI)
  show "extractSalesNum h (JNum n) = n" by (rule extractSalesNum_number)
next
  assume "\<not> isNumber raw" then show "isCount (extractSalesNum h raw)"
    by (rule extractSalesNum_count)
next
  assume "\<not> isNumber raw \<and> \<not> truthy raw"
  then show "extractSalesNum h raw = Finite 0"
    by (cases raw) (simp_all add: extractSalesNum_def)
next
  assume "\<not> isNumber raw \<and> (\<forall>c\<in>set (toStr h raw). \<not> isDigit c)"
  then show "extractSalesNum h raw = Finite 0"
    by (cases raw) (simp_all add: extractSalesNum_def matchDigits_none)
next
  assume a: "\<not> isNumber raw \<and> truthy raw \<and> toStr h raw = pre @ run @ post \<and>
      (\<forall>c\<in>set pre. \<not> isDigit c) \<and> run \<noteq> [] \<and> (\<forall>c\<in>set run. isDigit c) \<and>
      (post = [] \<or> \<not> isDigit (hd post))"
  then have "matchDigits (toStr h raw) = Some run"
    using matchDigits_run [of pre run post] by simp
  with a show "extractSalesNum h raw = Finite (real (digitsValue run))"
    by (cases raw) (simp_all add: extractSalesNum_def)
next
  show "extractSalesNum h (JStr (ascii ''3000+'' @ [20214])) = Finite 3000"
    by (simp add: extractSalesNum_def matchDigits_def ascii_def isDigit_def digitsValue_def)
next
  show "extractSalesNum h (JNum (Finite 150)) = Finite 150"
    by (simp add: extractSalesNum_def)
next
  show "extractSalesNum h (JStr []) = Finite 0"
    by (simp add: extractSalesNum_def)
next
  show "extractSalesNum h (JStr [26080]) = Finite 0"
    by (simp add: extractSalesNum_def matchDigits_def isDigit_def)
qed

theorem extractSalesNum_spec_witness:
  "extractSalesNum asciiHost (JStr (ascii ''ab12c3'')) = Finite 12 \<and>
   isCount (extractSalesNum asciiHost (JStr (ascii ''ab12c3''))) \<and>
   extractSalesNum asciiHost JNull = Finite 0 \<and>
   extractSalesNum asciiHost (JStr (ascii ''abc'')) = Finite 0"
proof -
  have 1: "extractSalesNum asciiHost (JStr (ascii ''ab12c3'')) = Finite (real (digitsValue (ascii ''12'')))"
    using extractSalesNum_spec [of asciiHost _ "JStr (ascii ''ab12c3'')" "ascii ''ab''" "ascii ''12''" "ascii ''c3''"]
    by (simp add: ascii_def isDigit_def)
  have 2: "isCount (extractSalesNum asciiHost (JStr (ascii ''ab12c3'')))"
    using extractSalesNum_spec [of asciiHost _ "JStr (ascii ''ab12c3'')"] by simp
  have 3: "extractSalesNum asciiHost JNull = Finite 0"
    using extractSalesNum_spec [of asciiHost _ JNull] by simp
  have 4: "extractSalesNum asciiHost (JStr (ascii ''abc'')) = Finite 0"
    using extractSalesNum_spec [of asciiHost _ "JStr (ascii ''abc'')"]
    by (simp add: ascii_def isDigit_def)
  from 1 have e1: "extractSalesNum asciiHost (JStr (ascii ''ab12c3'')) = Finite 12"
    by (simp add: ascii_def digitsValue_def)
  from e1 2 3 4 show ?thesis by blast
qed

text \<open>
  C4 as stated fails: the number \<open>-5\<close> is returned as it is, and it is not a
  non-negative integer.
\<close>

theorem extractSalesNum_negative_counterexample:
  "\<not> isCount (extractSalesNum asciiHost (JNum (Finite (- 5))))"
  by (simp add: extractSalesNum_def)

lemma falsy_cases:
  "\<not> truthy raw \<longleftrightarrow> raw \<in> {JUndefined, JNull, JBool False, JNum NaN, JNum (Finite 0), JStr []}"
  by (cases raw rule: truthy.cases) auto

text \<open>
  C9.  \<open>parseDiscount\<close> returns the default \<open>10\<close> for the number \<open>0\<close>, for the empty
  string, \<open>null\<close>, \<open>undefined\<close> and \<open>NaN\<close>, and for every falsy input; so a purchase
  row whose discount cell is the number \<open>0\<close> gets the effective discount \<open>10\<close>, no
  discount, and not a discount of all the price.
\<close>

theorem parseDiscount_falsy:
  "parseDiscount h (JNum (Finite 0)) = 10 \<and>
   parseDiscount h (JStr []) = 10 \<and>
   parseDiscount h JNull = 10 \<and>
   parseDiscount h JUndefined = 10 \<and>
   parseDiscount h (JNum NaN) = 10 \<and>
   (\<not> truthy raw \<longrightarrow> parseDiscount h raw = 10) \<and>
   (cellAt r (discountIdx c) = JNum (Finite 0) \<longrightarrow> effectiveDiscount h c r = 10)"
  by (simp add: parseDiscount_def effectiveDiscount_def)

theorem parseDiscount_falsy_witness:
  "\<not> truthy (JBool False) \<and> parseDiscount asciiHost (JBool False) = 10 \<and>
   cellAt [JStr (ascii ''A1''), JNum (Finite 100), JNum (Finite 0)]
     (discountIdx \<lparr> skuIdx = 0, tagPriceIdx = 1, discountIdx = 2, salesIdx = - 1 \<rparr>)
     = JNum (Finite 0) \<and>
   effectiveDiscount asciiHost \<lparr> skuIdx = 0, tagPriceIdx = 1, discountIdx = 2, salesIdx = - 1 \<rparr>
     [JStr (ascii ''A1''), JNum (Finite 100), JNum (Finite 0)] = 10"
  using parseDiscount_falsy [of asciiHost "JBool False"
      "[JStr (ascii ''A1''), JNum (Finite 100), JNum (Finite 0)]"
      "\<lparr> skuIdx = 0, tagPriceIdx = 1, discountIdx = 2, salesIdx = - 1 \<rparr>"]
  by (simp add: cellAt_def)

text \<open>
  C10 as stated fails at the number \<open>0\<close>: its string form \<open>"0"\<close> parses to the number
  \<open>0\<close>, and \<open>parseDiscount\<close> returns \<open>10\<close>.
\<close>

theorem parseDiscount_zero_counterexample:
  "parseFloat (toStr asciiHost (JNum (Finite 0))) = Finite 0 \<and>
   parseDiscount asciiHost (JNum (Finite 0)) \<noteq> 0"
  by (simp add: parseDiscount_def eval_defs)

text \<open>
  C10, as the code has it.  \<open>parseDiscount\<close> has no range check: for every input that is
  not falsy and whose string form parses to a number it returns that number, so
  \<open>"15"\<close> gives \<open>15\<close> and \<open>"-3"\<close> gives \<open>-3\<close>; with these discounts a purchase row of tag
  price \<open>100\<close> gets the cost price \<open>150\<close>, above the tag price, and \<open>-30\<close>, a negative one.
\<close>

theorem parseDiscount_no_range_check:
  "(truthy raw \<and> parseFloat (toStr h raw) = Finite x \<longrightarrow> parseDiscount h raw = x) \<and>
   parseDiscount h (JStr (ascii ''15'')) = 15 \<and>
   parseDiscount h (JStr (ascii ''-3'')) = - 3 \<and>
   map_option (\<lambda>res. (tagPrice res, costPrice res))
     (arbitrageRow asciiHost [] \<lparr> skuIdx = 0, tagPriceIdx = 1, discountIdx = 2, salesIdx = - 1 \<rparr> f d
        [JStr (ascii ''A1''), JStr (ascii ''100''), JStr (ascii ''15'')]) = Some (100, 150) \<and>
   map_option (\<lambda>res. (tagPrice res, costPrice res))
     (arbitrageRow asciiHost [] \<lparr> skuIdx = 0, tagPriceIdx = 1, discountIdx = 2, salesIdx = - 1 \<rparr> f d
        [JStr (ascii ''A1''), JStr (ascii ''100''), JStr (ascii ''-3'')]) = Some (100, - 30)"
proof (intro conjI impI)
  assume "truthy raw \<and> parseFloat (toStr h raw) = Finite x"
  then show "parseDiscount h raw = x" by (simp add: parseDiscount_def)
next
  show "parseDiscount h (JStr (ascii ''15'')) = 15"
    by (simp add: parseDiscount_def eval_defs)
next
  show "parseDiscount h (JStr (ascii ''-3'')) = - 3"
    by (simp add: parseDiscount_def eval_defs)
next
  show "map_option (\<lambda>res. (tagPrice res, costPrice res))
     (arbitrageRow asciiHost [] \<lparr> skuIdx = 0, tagPriceIdx = 1, discountIdx = 2, salesIdx = - 1 \<rparr> f d
        [JStr (ascii ''A1''), JStr (ascii ''100''), JStr (ascii ''15'')]) = Some (100, 150)"
    by (simp add: arbitrageRow_def tagPriceOf_def effectiveDiscount_def parseDiscount_def
        marketPriceOf_def Let_def eval_defs)
next
  show "map_option (\<lambda>res. (tagPrice res, costPrice res))
     (arbitrageRow asciiHost [] \<lparr> skuIdx = 0, tagPriceIdx = 1, discountIdx = 2, salesIdx = - 1 \<rparr> f d
        [JStr (ascii ''A1''), JStr (ascii ''100''), JStr (ascii ''-3'')]) = Some (100, - 30)"
    by (simp add: arbitrageRow_def tagPriceOf_def effectiveDiscount_def parseDiscount_def
        marketPriceOf_def Let_def eval_defs)
qed

theorem parseDiscount_no_range_check_witness:
  "truthy (JStr (ascii ''12.5'')) \<and> parseFloat (toStr asciiHost (JStr (ascii ''12.5''))) = Finite 12.5 \<and>
   parseDiscount asciiHost (JStr (ascii ''12.5'')) = 12.5"
proof -
  have a: "truthy (JStr (ascii ''12.5''))" by (simp add: ascii_def)
  have b: "parseFloat (toStr asciiHost (JStr (ascii ''12.5''))) = Finite 12.5"
    by (simp add: eval_defs)
  from a b parseDiscount_no_range_check [of "JStr (ascii ''12.5'')" asciiHost "12.5"]
  show ?thesis by blast
qed

section \<open>Properties of the ingestion orchestrator\<close>

lemma isComplete_iff:
  "isComplete ty cm used \<longleftrightarrow>
     used \<or> (sku_col cm \<noteq> - 1 \<and> (ty \<noteq> MARKET \<or> price_col cm \<noteq> - 1) \<and>
             (ty \<notin> {INVENTORY, FUTURE} \<or> sales_col cm \<noteq> - 1))"
  by (auto simp: isComplete_def Let_def)

lemma hole_matches_no_keyword:
  "\<not> matchesAny skuKeywords (trim (toStr h JUndefined))"
  "\<not> matchesAny sizeKeywords (trim (toStr h JUndefined))"
  "\<not> matchesAny priceKeywords (trim (toStr h JUndefined))"
  "\<not> matchesAny discountKeywords (trim (toStr h JUndefined))"
  "\<not> matchesAny salesKeywords (trim (toStr h JUndefined))"
  "\<not> matchesAny tagPriceKeywords (trim (toStr h JUndefined))"
  "\<not> matchesAny uploadDiscountKeywords (trim (toStr h JUndefined))"
  "\<not> matchesAny uploadSalesKeywords (trim (toStr h JUndefined))"
  by (simp_all add: skuKeywords_def sizeKeywords_def priceKeywords_def discountKeywords_def
      salesKeywords_def tagPriceKeywords_def uploadDiscountKeywords_def uploadSalesKeywords_def
      eval_defs)

lemma detectLoop_hole: "detectLoop h idx (JUndefined # cols) m = detectLoop h (idx + 1) cols m"
  using hole_matches_no_keyword [of h] by (simp add: Let_def)

lemma find_remembered:
  "(\<exists>m\<in>set saved. signature m = sig) \<longleftrightarrow> find (\<lambda>m. signature m = sig) saved \<noteq> None"
  by (auto simp: find_None_iff)

lemma uploadFile_remembered:
  assumes "rawData \<noteq> []"
    and "find (\<lambda>m. signature m =
            headerSignatureOf h (headerCells h (rowAt rawData (findHeaderRow h rawData))))
           savedMappings = Some savedMap"
  shows "uploadFile h savedMappings plat ty today now fileName rawData =
           AutoExtracted
             (fst (extractRecords h rawData (findHeaderRow h rawData) (colMap savedMap) fileName
                     plat ty today now))
             (snd (extractRecords h rawData (findHeaderRow h rawData) (colMap savedMap) fileName
                     plat ty today now))"
  using assms by (simp add: uploadFile_def selectMapping_def isComplete_def Let_def split_def)

lemma uploadFile_fresh:
  assumes "rawData \<noteq> []"
    and "find (\<lambda>m. signature m =
            headerSignatureOf h (headerCells h (rowAt rawData (findHeaderRow h rawData))))
           savedMappings = None"
    and "cm = autoDetectColumns h (headerCells h (rowAt rawData (findHeaderRow h rawData)))"
  shows "uploadFile h savedMappings plat ty today now fileName rawData =
           (if sku_col cm \<noteq> - 1 \<and> (ty \<noteq> MARKET \<or> price_col cm \<noteq> - 1) \<and>
               (ty \<notin> {INVENTORY, FUTURE} \<or> sales_col cm \<noteq> - 1)
            then AutoExtracted
                   (fst (extractRecords h rawData (findHeaderRow h rawData) cm fileName plat ty
                           today now))
                   (snd (extractRecords h rawData (findHeaderRow h rawData) cm fileName plat ty
                           today now))
            else NeedsMapping cm)"
  using assms by (simp add: uploadFile_def selectMapping_def isComplete_iff Let_def split_def)

text \<open>
  C5.  A file that is not empty is extracted without asking for a mapping exactly when a
  mapping is remembered for the signature of its header row, or the mapping detected from
  the header row has the SKU column, has the price column unless the category is not the
  market price, and has the sales column unless the category is neither the inventory nor
  the futures.  With a remembered mapping the records are extracted with that mapping,
  whatever columns it holds; without one they are extracted with the detected mapping when
  it is complete, and the file is queued for a manual mapping when it is not.
\<close>

theorem auto_accept_iff:
  "((\<exists>records errs. uploadFile h savedMappings plat ty today now fileName rawData
        = AutoExtracted records errs) \<longleftrightarrow>
    rawData \<noteq> [] \<and>
    (let headerRow = headerCells h (rowAt rawData (findHeaderRow h rawData));
         cm = autoDetectColumns h headerRow
     in (\<exists>m\<in>set savedMappings. signature m = headerSignatureOf h headerRow) \<or>
        (sku_col cm \<noteq> - 1 \<and> (ty \<noteq> MARKET \<or> price_col cm \<noteq> - 1) \<and>
         (ty \<notin> {INVENTORY, FUTURE} \<or> sales_col cm \<noteq> - 1)))) \<and>
   (rawData \<noteq> [] \<longrightarrow>
    (let headerIndex = findHeaderRow h rawData;
         headerRow = headerCells h (rowAt rawData headerIndex);
         cm = autoDetectColumns h headerRow
     in case find (\<lambda>m. signature m = headerSignatureOf h headerRow) savedMappings of
          Some savedMap \<Rightarrow>
            uploadFile h savedMappings plat ty today now fileName rawData =
              AutoExtracted
                (fst (extractRecords h rawData headerIndex (colMap savedMap) fileName plat ty
                        today now))
                (snd (extractRecords h rawData headerIndex (colMap savedMap) fileName plat ty
                        today now))
        | None \<Rightarrow>
            uploadFile h savedMappings plat ty today now fileName rawData =
              (if sku_col cm \<noteq> - 1 \<and> (ty \<noteq> MARKET \<or> price_col cm \<noteq> - 1) \<and>
                  (ty \<notin> {INVENTORY, FUTURE} \<or> sales_col cm \<noteq> - 1)
               then AutoExtracted
                      (fst (extractRecords h rawData headerIndex cm fileName plat ty today now))
                      (snd (extractRecords h rawData headerIndex cm fileName plat ty today now))
               else NeedsMapping cm)))"
proof (rule conjI)
  let ?hr = "headerCells h (rowAt rawData (findHeaderRow h rawData))"
  let ?f = "find (\<lambda>m. signature m = headerSignatureOf h ?hr) savedMappings"
  show "(\<exists>records errs. uploadFile h savedMappings plat ty today now fileName rawData
        = AutoExtracted records errs) \<longleftrightarrow>
    rawData \<noteq> [] \<and>
    (let headerRow = headerCells h (rowAt rawData (findHeaderRow h rawData));
         cm = autoDetectColumns h headerRow
     in (\<exists>m\<in>set savedMappings. signature m = headerSignatureOf h headerRow) \<or>
        (sku_col cm \<noteq> - 1 \<and> (ty \<noteq> MARKET \<or> price_col cm \<noteq> - 1) \<and>
         (ty \<notin> {INVENTORY, FUTURE} \<or> sales_col cm \<noteq> - 1)))"
  proof (cases "rawData = []")
    case True
    then show ?thesis by (simp add: uploadFile_def)
  next
    case False
    show ?thesis
    proof (cases ?f)
      case None
      with uploadFile_fresh [OF False None refl, of plat ty today now fileName] False
      show ?thesis by (simp add: Let_def find_remembered)
    next
      case (Some savedMap)
      with uploadFile_remembered [OF False Some, of plat ty today now fileName] False
      show ?thesis by (simp add: Let_def find_remembered)
    qed
  qed
next
  let ?hr = "headerCells h (rowAt rawData (findHeaderRow h rawData))"
  let ?f = "find (\<lambda>m. signature m = headerSignatureOf h ?hr) savedMappings"
  show "rawData \<noteq> [] \<longrightarrow>
    (let headerIndex = findHeaderRow h rawData;
         headerRow = headerCells h (rowAt rawData headerIndex);
         cm = autoDetectColumns h headerRow
     in case find (\<lambda>m. signature m = headerSignatureOf h headerRow) savedMappings of
          Some savedMap \<Rightarrow>
            uploadFile h savedMappings plat ty today now fileName rawData =
              AutoExtracted
                (fst (extractRecords h rawData headerIndex (colMap savedMap) fileName plat ty
                        today now))
                (snd (extractRecords h rawData headerIndex (colMap savedMap) fileName plat ty
                        today now))
        | None \<Rightarrow>
            uploadFile h savedMappings plat ty today now fileName rawData =
              (if sku_col cm \<noteq> - 1 \<and> (ty \<noteq> MARKET \<or> price_col cm \<noteq> - 1) \<and>
                  (ty \<notin> {INVENTORY, FUTURE} \<or> sales_col cm \<noteq> - 1)
               then AutoExtracted
                      (fst (extractRecords h rawData headerIndex cm fileName plat ty today now))
                      (snd (extractRecords h rawData headerIndex cm fileName plat ty today now))
               else NeedsMapping cm))"
  proof
    assume ne: "rawData \<noteq> []"
    show "let headerIndex = findHeaderRow h rawData;
         headerRow = headerCells h (rowAt rawData headerIndex);
         cm = autoDetectColumns h headerRow
     in case find (\<lambda>m. signature m = headerSignatureOf h headerRow) savedMappings of
          Some savedMap \<Rightarrow>
            uploadFile h savedMappings plat ty today now fileName rawData =
              AutoExtracted
                (fst (extractRecords h rawData headerIndex (colMap savedMap) fileName plat ty
                        today now))
                (snd (extractRecords h rawData headerIndex (colMap savedMap) fileName plat ty
                        today now))
        | None \<Rightarrow>
            uploadFile h savedMappings plat ty today now fileName rawData =
              (if sku_col cm \<noteq> - 1 \<and> (ty \<noteq> MARKET \<or> price_col cm \<noteq> - 1) \<and>
                  (ty \<notin> {INVENTORY, FUTURE} \<or> sales_col cm \<noteq> - 1)
               then AutoExtracted
                      (fst (extractRecords h rawData headerIndex cm fileName plat ty today now))
                      (snd (extractRecords h rawData headerIndex cm fileName plat ty today now))
               else NeedsMapping cm)"
    proof (cases ?f)
      case None
      with uploadFile_fresh [OF ne None refl, of plat ty today now fileName]
      show ?thesis by (simp add: Let_def)
    next
      case (Some savedMap)
      with uploadFile_remembered [OF ne Some, of plat ty today now fileName]
      show ?thesis by (simp add: Let_def)
    qed
  qed
qed

lemmas extract_defs = extractRecords_def extractRow_def priceStep_def discountStep_def
  extractSalesNum_def matchDigits_def Let_def

lemmas detect_defs = findHeaderRow_def headerKeywords_def autoDetectColumns_def
  noColumns_def skuKeywords_def sizeKeywords_def priceKeywords_def discountKeywords_def
  salesKeywords_def rowAt_def headerCells_def joinCell_def headerSignatureOf_def

lemma gapSheet_header:
  "findHeaderRow asciiHost gapSheet = 0 \<and>
   headerSignatureOf asciiHost (headerCells asciiHost (rowAt gapSheet 0)) = ascii ''SKU||Size'' \<and>
   autoDetectColumns asciiHost (headerCells asciiHost (rowAt gapSheet 0)) =
     \<lparr> sku_col = 0, size_col = 2, price_col = - 1, discount_col = - 1, sales_col = - 1 \<rparr>"
  by (simp add: gapSheet_def detect_defs eval_defs)

text \<open>
  The market-price sheet \<open>gapSheet\<close> has no price column.  With the mapping remembered
  for its signature it is extracted all the same, and the record gets the price \<open>0\<close>;
  without one it is queued; as a supplier sheet it is extracted with the detected mapping.
\<close>

theorem auto_accept_iff_witness:
  "uploadFile asciiHost [gapMapping] (ascii ''Dewu'') MARKET (ascii ''2024-01-01'') (\<lambda>i. 0)
      (ascii ''m.xlsx'') gapSheet =
     AutoExtracted
       [\<lparr> recId = ascii ''A1-Dewu-m.xlsx-1-0'', productCode = ascii ''A1'',
          sizeLabel = ascii ''42'', price = 0, discount = 10, salesRaw = [48],
          salesNum = Finite 0, ShoeRecord.platform = ascii ''Dewu'',
          sourceFile = ascii ''m.xlsx'', dataType = MARKET,
          updateDate = ascii ''2024-01-01'' \<rparr>] [] \<and>
   uploadFile asciiHost [] (ascii ''Dewu'') MARKET (ascii ''2024-01-01'') (\<lambda>i. 0)
      (ascii ''m.xlsx'') gapSheet =
     NeedsMapping \<lparr> sku_col = 0, size_col = 2, price_col = - 1, discount_col = - 1,
                    sales_col = - 1 \<rparr> \<and>
   (\<exists>records errs.
      uploadFile asciiHost [] (ascii ''Dewu'') SUPPLIER (ascii ''2024-01-01'') (\<lambda>i. 0)
        (ascii ''m.xlsx'') gapSheet = AutoExtracted records errs)"
proof -
  have ne: "gapSheet \<noteq> []" by (simp add: gapSheet_def)
  note t = auto_accept_iff [of asciiHost _ "ascii ''Dewu''" _ "ascii ''2024-01-01''" "\<lambda>i. 0"
      "ascii ''m.xlsx''" gapSheet]
  have sig: "signature gapMapping = ascii ''SKU||Size''"
    and cm: "colMap gapMapping = \<lparr> sku_col = 0, size_col = 2, price_col = - 1,
        discount_col = - 1, sales_col = - 1 \<rparr>"
    by (simp_all add: gapMapping_def)
  have ex: "extractRecords asciiHost gapSheet 0
      \<lparr> sku_col = 0, size_col = 2, price_col = - 1, discount_col = - 1, sales_col = - 1 \<rparr>
      (ascii ''m.xlsx'') (ascii ''Dewu'') MARKET (ascii ''2024-01-01'') (\<lambda>i. 0) =
     ([\<lparr> recId = ascii ''A1-Dewu-m.xlsx-1-0'', productCode = ascii ''A1'',
          sizeLabel = ascii ''42'', price = 0, discount = 10, salesRaw = [48],
          salesNum = Finite 0, ShoeRecord.platform = ascii ''Dewu'',
          sourceFile = ascii ''m.xlsx'', dataType = MARKET,
          updateDate = ascii ''2024-01-01'' \<rparr>], [])"
    by (simp add: gapSheet_def extract_defs eval_defs)
  have a: "uploadFile asciiHost [gapMapping] (ascii ''Dewu'') MARKET (ascii ''2024-01-01'') (\<lambda>i. 0)
      (ascii ''m.xlsx'') gapSheet =
     AutoExtracted
       [\<lparr> recId = ascii ''A1-Dewu-m.xlsx-1-0'', productCode = ascii ''A1'',
          sizeLabel = ascii ''42'', price = 0, discount = 10, salesRaw = [48],
          salesNum = Finite 0, ShoeRecord.platform = ascii ''Dewu'',
          sourceFile = ascii ''m.xlsx'', dataType = MARKET,
          updateDate = ascii ''2024-01-01'' \<rparr>] []"
    using t [of "[gapMapping]" MARKET, THEN conjunct2] ne
    by (simp add: gapSheet_header sig cm ex)
  have b: "uploadFile asciiHost [] (ascii ''Dewu'') MARKET (ascii ''2024-01-01'') (\<lambda>i. 0)
      (ascii ''m.xlsx'') gapSheet =
     NeedsMapping \<lparr> sku_col = 0, size_col = 2, price_col = - 1, discount_col = - 1,
                    sales_col = - 1 \<rparr>"
    using t [of "[]" MARKET, THEN conjunct2] ne
    by (simp add: gapSheet_header)
  have c: "\<exists>records errs.
      uploadFile asciiHost [] (ascii ''Dewu'') SUPPLIER (ascii ''2024-01-01'') (\<lambda>i. 0)
        (ascii ''m.xlsx'') gapSheet = AutoExtracted records errs"
    using t [of "[]" SUPPLIER, THEN conjunct1] ne
    by (simp add: gapSheet_header)
  from a b c show ?thesis by (intro conjI)
qed

text \<open>
  When \<open>handleFileUpload\<close> commits records, the stored records of the selected channel
  and category are removed, the others are kept in their order, and the new records follow.
\<close>

lemma commitUpload_replaces:
  "allNewRecords \<noteq> [] \<Longrightarrow>
   commitUpload P T allNewRecords prev =
     filter (\<lambda>p. \<not> (ShoeRecord.platform p = P \<and> dataType p = T)) prev @ allNewRecords"
  by (simp add: commitUpload_def)

text \<open>
  C7 fails on the path of the manual mapping.  The store holds a market-price record of
  the channel \<open>Dewu\<close>.  A new market-price sheet for \<open>Dewu\<close> whose header is not
  recognised is queued by \<open>handleFileUpload\<close>, which leaves the store as it is; when the
  user confirms a mapping, \<open>handleConfirmMapping\<close> appends the new record and the stored
  record of the same channel and category stays.
\<close>

theorem handleConfirmMapping_keeps_stale_records:
  "handleFileUpload asciiHost [] (ascii ''Dewu'') MARKET (ascii ''2024-02-02'') (\<lambda>i. 0)
     [(ascii ''new.xlsx'', unmappedSheet)] [staleRecord] = [staleRecord] \<and>
   handleConfirmMapping asciiHost (ascii ''Dewu'') MARKET (ascii ''2024-02-02'') (\<lambda>i. 0)
     (ascii ''new.xlsx'', unmappedSheet, 0) chosenMap [staleRecord] =
     [staleRecord,
      \<lparr> recId = ascii ''A1-Dewu-new.xlsx-1-0'', productCode = ascii ''A1'', sizeLabel = [45],
        price = 200, discount = 10, salesRaw = [48], salesNum = Finite 0,
        ShoeRecord.platform = ascii ''Dewu'', sourceFile = ascii ''new.xlsx'', dataType = MARKET,
        updateDate = ascii ''2024-02-02'' \<rparr>] \<and>
   ShoeRecord.platform staleRecord = ascii ''Dewu'' \<and> dataType staleRecord = MARKET"
  by (simp add: handleFileUpload_def handleConfirmMapping_def uploadFile_def selectMapping_def
      isComplete_def recordsOf_def commitUpload_def staleRecord_def unmappedSheet_def
      chosenMap_def extract_defs detect_defs eval_defs)

section \<open>Properties of the Column Mapper\<close>

lemma detectLoop_snoc:
  "detectLoop h idx (cols @ [col]) m = detectLoop h (idx + length cols) [col] (detectLoop h idx cols m)"
  by (induction cols arbitrary: idx m) (simp_all add: Let_def)

lemma matchingIndices_snoc:
  "matchingIndices h ks (hr @ [c]) =
     matchingIndices h ks hr @ (if matchesAny ks (trim (toStr h c)) then [length hr] else [])"
proof -
  have "filter (\<lambda>i. matchesAny ks (trim (toStr h ((hr @ [c]) ! i)))) [0..<length hr] =
        filter (\<lambda>i. matchesAny ks (trim (toStr h (hr ! i)))) [0..<length hr]"
    by (rule filter_cong) (simp_all add: nth_append)
  then show ?thesis by (simp add: matchingIndices_def)
qed

lemma lastMatch_Nil: "lastMatch h ks [] = - 1"
  by (simp add: lastMatch_def matchingIndices_def)

lemma lastMatch_snoc:
  "lastMatch h ks (hr @ [c]) =
     (if matchesAny ks (trim (toStr h c)) then int (length hr) else lastMatch h ks hr)"
  by (simp add: lastMatch_def matchingIndices_snoc)

lemma detectLoop_lastMatch:
  "detectLoop h 0 hr noColumns =
     \<lparr> sku_col = lastMatch h skuKeywords hr, size_col = lastMatch h sizeKeywords hr,
       price_col = lastMatch h priceKeywords hr, discount_col = lastMatch h discountKeywords hr,
       sales_col = lastMatch h salesKeywords hr \<rparr>"
proof (induction hr rule: rev_induct)
  case Nil
  show ?case by (simp add: lastMatch_Nil noColumns_def)
next
  case (snoc c hr)
  show ?case
    by (simp add: detectLoop_snoc snoc.IH lastMatch_snoc Let_def)
qed

lemma lastMatch_absent:
  "lastMatch h ks hr = - 1 \<longleftrightarrow> (\<forall>c\<in>set hr. \<not> matchesAny ks (trim (toStr h c)))"
proof -
  have "matchingIndices h ks hr = [] \<longleftrightarrow> (\<forall>c\<in>set hr. \<not> matchesAny ks (trim (toStr h c)))"
    by (auto simp: matchingIndices_def filter_empty_conv all_set_conv_all_nth)
  then show ?thesis
    by (auto simp: lastMatch_def split: list.splits)
qed

lemma lastMatch_present:
  assumes "lastMatch h ks hr = int i"
  shows "i < length hr \<and> matchesAny ks (trim (toStr h (hr ! i))) \<and>
         (\<forall>j. i < j \<and> j < length hr \<longrightarrow> \<not> matchesAny ks (trim (toStr h (hr ! j))))"
  using assms
proof (induction hr arbitrary: i rule: rev_induct)
  case Nil
  then show ?case by (simp add: lastMatch_Nil)
next
  case (snoc c hr)
  show ?case
  proof (cases "matchesAny ks (trim (toStr h c))")
    case True
    with snoc.prems have "i = length hr" by (simp add: lastMatch_snoc)
    with True show ?thesis by (auto simp: nth_append)
  next
    case False
    with snoc.prems have "lastMatch h ks hr = int i" by (simp add: lastMatch_snoc)
    from snoc.IH [OF this] False show ?thesis
      by (auto simp: nth_append less_Suc_eq)
  qed
qed

text \<open>
  C3 as stated fails: in the header \<open>SKU\<close>, \<open>Price\<close>, \<open>Supplier SKU\<close> the first cell
  that matches a SKU keyword has index \<open>0\<close>, and the index recorded is \<open>2\<close>.
\<close>

theorem autoDetectColumns_first_match_counterexample:
  "firstMatch asciiHost skuKeywords
     [JStr (ascii ''SKU''), JStr (ascii ''Price''), JStr (ascii ''Supplier SKU'')] = 0 \<and>
   sku_col (autoDetectColumns asciiHost
     [JStr (ascii ''SKU''), JStr (ascii ''Price''), JStr (ascii ''Supplier SKU'')]) = 2"
  by (simp add: firstMatch_def matchingIndices_def autoDetectColumns_def noColumns_def
      skuKeywords_def sizeKeywords_def priceKeywords_def discountKeywords_def
      salesKeywords_def eval_defs upt_rec [of 0] upt_rec [of 1] upt_rec [of 2])

text \<open>
  C3, as the code has it.  For each of the roles sku, size, price, discount and sales the
  Column Mapper tests the role's keywords against the trimmed text of each header cell, by
  substring and with case, and records the index of the last cell that matches: the
  recorded index is \<open>-1\<close> exactly when no cell matches, and otherwise it is the index of
  a matching cell after which no cell matches.
\<close>

theorem autoDetectColumns_last_match:
  "sku_col (autoDetectColumns h headerRow) = lastMatch h skuKeywords headerRow \<and>
   size_col (autoDetectColumns h headerRow) = lastMatch h sizeKeywords headerRow \<and>
   price_col (autoDetectColumns h headerRow) = lastMatch h priceKeywords headerRow \<and>
   discount_col (autoDetectColumns h headerRow) = lastMatch h discountKeywords headerRow \<and>
   sales_col (autoDetectColumns h headerRow) = lastMatch h salesKeywords headerRow \<and>
   (lastMatch h ks headerRow = - 1 \<longleftrightarrow>
      (\<forall>c\<in>set headerRow. \<not> matchesAny ks (trim (toStr h c)))) \<and>
   (lastMatch h ks headerRow = int i \<longrightarrow>
      i < length headerRow \<and> matchesAny ks (trim (toStr h (headerRow ! i))) \<and>
      (\<forall>j. i < j \<and> j < length headerRow \<longrightarrow>
         \<not> matchesAny ks (trim (toStr h (headerRow ! j)))))"
  using lastMatch_present [of h ks headerRow i]
  by (simp add: autoDetectColumns_def detectLoop_lastMatch lastMatch_absent)

theorem autoDetectColumns_last_match_witness:
  "lastMatch asciiHost skuKeywords
     [JStr (ascii ''SKU''), JStr (ascii '' Price ''), JStr (ascii ''Supplier SKU'')] = int 2 \<and>
   sku_col (autoDetectColumns asciiHost
     [JStr (ascii ''SKU''), JStr (ascii '' Price ''), JStr (ascii ''Supplier SKU'')]) = 2 \<and>
   price_col (autoDetectColumns asciiHost
     [JStr (ascii ''SKU''), JStr (ascii '' Price ''), JStr (ascii ''Supplier SKU'')]) = 1 \<and>
   size_col (autoDetectColumns asciiHost
     [JStr (ascii ''SKU''), JStr (ascii '' Price ''), JStr (ascii ''Supplier SKU'')]) = - 1 \<and>
   matchesAny skuKeywords (trim (toStr asciiHost
     ([JStr (ascii ''SKU''), JStr (ascii '' Price ''), JStr (ascii ''Supplier SKU'')] ! 2)))"
proof -
  have l: "lastMatch asciiHost skuKeywords
     [JStr (ascii ''SKU''), JStr (ascii '' Price ''), JStr (ascii ''Supplier SKU'')] = int 2"
    by (simp add: lastMatch_def matchingIndices_def skuKeywords_def eval_defs
        upt_rec [of 0] upt_rec [of 1] upt_rec [of 2])
  have p: "lastMatch asciiHost priceKeywords
     [JStr (ascii ''SKU''), JStr (ascii '' Price ''), JStr (ascii ''Supplier SKU'')] = 1"
    by (simp add: lastMatch_def matchingIndices_def priceKeywords_def eval_defs
        upt_rec [of 0] upt_rec [of 1] upt_rec [of 2])
  have s: "lastMatch asciiHost sizeKeywords
     [JStr (ascii ''SKU''), JStr (ascii '' Price ''), JStr (ascii ''Supplier SKU'')] = - 1"
    by (simp add: lastMatch_def matchingIndices_def sizeKeywords_def eval_defs
        upt_rec [of 0] upt_rec [of 1] upt_rec [of 2])
  from autoDetectColumns_last_match [of asciiHost
      "[JStr (ascii ''SKU''), JStr (ascii '' Price ''), JStr (ascii ''Supplier SKU'')]"
      skuKeywords 2] l p s
  show ?thesis by simp
qed

section \<open>Properties of the Record Extractor\<close>

lemma parseFloat_blank: "dropWhile isWhiteSpace s = [] \<Longrightarrow> parseFloat s = NaN"
proof -
  assume a: "dropWhile isWhiteSpace s = []"
  show ?thesis unfolding parseFloat_def a by simp
qed

lemma trim_nonblank: "dropWhile isWhiteSpace s \<noteq> [] \<Longrightarrow> trim s \<noteq> []"
proof -
  assume a: "dropWhile isWhiteSpace s \<noteq> []"
  then have "\<not> isWhiteSpace (hd (dropWhile isWhiteSpace s))" by (rule hd_dropWhile)
  moreover from a have "hd (dropWhile isWhiteSpace s) \<in> set (rev (dropWhile isWhiteSpace s))"
    by simp
  ultimately have "dropWhile isWhiteSpace (rev (dropWhile isWhiteSpace s)) \<noteq> []"
    by (auto simp: dropWhile_eq_Nil_conv)
  then show ?thesis by (simp add: trim_def)
qed

lemma parseFloat_Finite_nonblank: "parseFloat s = Finite p \<Longrightarrow> trim s \<noteq> []"
  using parseFloat_blank [of s] trim_nonblank [of s] by auto

lemma parseFloat_undefined: "parseFloat (toStr h JUndefined) = NaN"
  by (simp add: eval_defs)

lemma cellAt_absent: "cellAt r (- 1) = JUndefined"
  by (simp add: cellAt_def)











lemma parseFloat_trim_blank: "trim s = [] \<Longrightarrow> parseFloat s = NaN"
  using parseFloat_Finite_nonblank [of s] by (cases "parseFloat s") auto

lemma priceStep_Some:
  assumes "priceStep h m ty i sku r = (Some x, e)"
  shows "x = (case parseFloat (toStr h (cellAt r (price_col m))) of
                NaN \<Rightarrow> 0 | Finite p \<Rightarrow> if p < 0 then 0 else p)"
proof (cases "price_col m \<noteq> - 1 \<and> cellAt r (price_col m) \<noteq> JUndefined \<and>
              trim (toStr h (cellAt r (price_col m))) \<noteq> []")
  case True
  with assms show ?thesis
    by (auto simp: priceStep_def split: jsnum.splits if_splits)
next
  case False
  then have "parseFloat (toStr h (cellAt r (price_col m))) = NaN"
    using parseFloat_undefined [of h] cellAt_absent [of r] parseFloat_trim_blank by auto
  moreover from False assms have "x = 0"
    by (auto simp: priceStep_def split: if_splits)
  ultimately show ?thesis by simp
qed

lemma extractSalesNum_string_count: "isCount (extractSalesNum h (JStr s))"
  by (rule extractSalesNum_count) simp

lemma extractSalesNum_zero_text: "extractSalesNum h (JStr [48]) = Finite 0"
  by (simp add: extractSalesNum_def matchDigits_def isDigit_def digitsValue_def)

lemma extractRow_Some:
  assumes "extractRow h m fileName plat ty today now i r = (Some x, e)"
  shows "ShoeRecord.productCode x = toUpperCase h (trim (toStr h (cellAt r (sku_col m)))) \<and>
         ShoeRecord.productCode x \<noteq> [] \<and>
         price x = (case parseFloat (toStr h (cellAt r (price_col m))) of
                      NaN \<Rightarrow> 0 | Finite p \<Rightarrow> if p < 0 then 0 else p) \<and>
         salesNum x = extractSalesNum h (JStr (salesRaw x)) \<and>
         ShoeRecord.platform x = plat \<and> dataType x = ty"
proof -
  let ?sku = "cleanProductCode h (cellAt r (sku_col m))"
  from assms have s: "?sku \<noteq> []"
    by (auto simp: extractRow_def Let_def split: if_splits)
  then have t: "truthy (cellAt r (sku_col m))"
    by (auto simp: cleanProductCode_def split: if_splits)
  from assms s obtain p e1 where p: "priceStep h m ty i ?sku r = (Some p, e1)"
    by (auto simp: extractRow_def Let_def split: if_splits prod.splits option.splits)
  from assms s p obtain d e2 where d: "discountStep h m ty i ?sku r = (Some d, e2)"
    by (auto simp: extractRow_def Let_def split: if_splits prod.splits option.splits)
  from assms s p d have x: "ShoeRecord.productCode x = ?sku" "price x = p"
      "ShoeRecord.platform x = plat" "dataType x = ty"
      "salesNum x = extractSalesNum h (JStr (salesRaw x))"
    by (auto simp: extractRow_def Let_def extractSalesNum_zero_text split: if_splits)
  from x s t priceStep_Some [OF p] show ?thesis
    by (simp add: cleanProductCode_def)
qed

lemma extractFrom_member:
  "x \<in> set (fst (extractFrom h m f pl ty td now i rows)) \<Longrightarrow>
   \<exists>j e. j < length rows \<and> extractRow h m f pl ty td now (i + j) (rows ! j) = (Some x, e)"
proof (induction rows arbitrary: i)
  case Nil
  then show ?case by simp
next
  case (Cons r rows)
  from Cons.prems consider
    (here) e where "extractRow h m f pl ty td now i r = (Some x, e)"
    | (later) "x \<in> set (fst (extractFrom h m f pl ty td now (i + 1) rows))"
    by (auto simp: split_def Let_def split: option.splits) (metis prod.collapse)
  then show ?case
  proof cases
    case here
    then have "0 < length (r # rows) \<and>
        extractRow h m f pl ty td now (i + 0) ((r # rows) ! 0) = (Some x, e)" by simp
    then show ?thesis by blast
  next
    case later
    from Cons.IH [OF later] obtain j e where
      "j < length rows" "extractRow h m f pl ty td now (i + 1 + j) (rows ! j) = (Some x, e)"
      by blast
    then have "Suc j < length (r # rows) \<and>
        extractRow h m f pl ty td now (i + Suc j) ((r # rows) ! Suc j) = (Some x, e)" by simp
    then show ?thesis by blast
  qed
qed

text \<open>
  C8.  Every record returned by \<open>extractRecords\<close> comes from a row after the header; its
  product code is the trimmed, uppercased text of the row's SKU cell and is not empty; its
  price is the parsed price cell when that is a number that is not negative and the default
  \<open>0\<close> otherwise, so it is never negative; its \<open>salesNum\<close> is \<open>extractSalesNum\<close> of the
  string \<open>salesRaw\<close>, a non-negative integer.
\<close>

theorem extracted_record_invariants:
  assumes "x \<in> set (fst (extractRecords h rawData headerIndex m fileName plat ty today now))"
  shows "\<exists>i. headerIndex < i \<and> i < length rawData \<and>
           ShoeRecord.productCode x =
             toUpperCase h (trim (toStr h (cellAt (rawData ! i) (sku_col m)))) \<and>
           ShoeRecord.productCode x \<noteq> [] \<and>
           price x = (case parseFloat (toStr h (cellAt (rawData ! i) (price_col m))) of
                        NaN \<Rightarrow> 0 | Finite p \<Rightarrow> if p < 0 then 0 else p) \<and>
           0 \<le> price x \<and>
           salesNum x = extractSalesNum h (JStr (salesRaw x)) \<and>
           isCount (salesNum x)"
proof -
  from assms obtain j e where j: "j < length (drop (headerIndex + 1) rawData)"
    and r: "extractRow h m fileName plat ty today now (headerIndex + 1 + j)
              (drop (headerIndex + 1) rawData ! j) = (Some x, e)"
    unfolding extractRecords_def by (blast dest: extractFrom_member)
  let ?i = "headerIndex + 1 + j"
  from j have i: "headerIndex < ?i" "?i < length rawData" by auto
  from j have n: "drop (headerIndex + 1) rawData ! j = rawData ! ?i" by simp
  from extractRow_Some [OF r [unfolded n]]
  have p: "ShoeRecord.productCode x =
             toUpperCase h (trim (toStr h (cellAt (rawData ! ?i) (sku_col m))))"
    "ShoeRecord.productCode x \<noteq> []"
    "price x = (case parseFloat (toStr h (cellAt (rawData ! ?i) (price_col m))) of
                        NaN \<Rightarrow> 0 | Finite p \<Rightarrow> if p < 0 then 0 else p)"
    "salesNum x = extractSalesNum h (JStr (salesRaw x))"
    by blast+
  from p(3) have "0 \<le> price x" by (simp split: jsnum.splits)
  moreover from p(4) have "isCount (salesNum x)" by (simp add: extractSalesNum_string_count)
  ultimately show ?thesis using i p by blast
qed

theorem extracted_record_invariants_witness:
  "\<lparr> recId = ascii ''CD2-Dewu-f.xlsx-2-0'', productCode = ascii ''CD2'', sizeLabel = [45],
     price = 0, discount = 10, salesRaw = [48], salesNum = Finite 0,
     ShoeRecord.platform = ascii ''Dewu'', sourceFile = ascii ''f.xlsx'', dataType = SUPPLIER,
     updateDate = ascii ''2024-01-01'' \<rparr>
   \<in> set (fst (extractRecords asciiHost priceSheet 0 priceSheetMap (ascii ''f.xlsx'')
              (ascii ''Dewu'') SUPPLIER (ascii ''2024-01-01'') (\<lambda>i. 0))) \<and>
   (\<exists>i. 0 < i \<and> i < length priceSheet \<and>
        ascii ''CD2'' = toUpperCase asciiHost
          (trim (toStr asciiHost (cellAt (priceSheet ! i) (sku_col priceSheetMap)))) \<and>
        (0::real) = (case parseFloat (toStr asciiHost (cellAt (priceSheet ! i) (price_col priceSheetMap))) of
                 NaN \<Rightarrow> 0 | Finite p \<Rightarrow> if p < 0 then 0 else p))"
proof -
  have m: "\<lparr> recId = ascii ''CD2-Dewu-f.xlsx-2-0'', productCode = ascii ''CD2'', sizeLabel = [45],
     price = 0, discount = 10, salesRaw = [48], salesNum = Finite 0,
     ShoeRecord.platform = ascii ''Dewu'', sourceFile = ascii ''f.xlsx'', dataType = SUPPLIER,
     updateDate = ascii ''2024-01-01'' \<rparr>
   \<in> set (fst (extractRecords asciiHost priceSheet 0 priceSheetMap (ascii ''f.xlsx'')
              (ascii ''Dewu'') SUPPLIER (ascii ''2024-01-01'') (\<lambda>i. 0)))"
    by (simp add: priceSheet_def priceSheetMap_def extract_defs eval_defs)
  from extracted_record_invariants [OF m] m show ?thesis by auto
qed

section \<open>Properties of the Arbitrage Matcher\<close>

lemma drop_Cons_nth:
  assumes "drop n xs = y # ys"
  shows "n < length xs \<and> y = xs ! n \<and> ys = drop (n + 1) xs"
proof -
  from assms have n: "n < length xs" by (cases "n < length xs") auto
  from Cons_nth_drop_Suc [OF n] assms show ?thesis using n by simp
qed

lemma processArbitrage_Inr:
  assumes "processArbitrage h md f d rawData = Inr (out, n)"
  shows "\<exists>sm. arbitrageLoop h md (headerCols h rawData) f d (dataRows h rawData) ([], 0) = (sm, n) \<and>
              out = sort_key (\<lambda>r. - profit r) (map snd sm)"
proof -
  from assms obtain header rest where dr: "drop (findHeaderRow h rawData) rawData = header # rest"
    by (auto simp: processArbitrage_def split: if_splits list.splits)
  from drop_Cons_nth [OF dr] have hd: "header = rowAt rawData (findHeaderRow h rawData)"
    and rs: "rest = dataRows h rawData"
    by (simp_all add: rowAt_def dataRows_def)
  from assms dr have "\<exists>sm. arbitrageLoop h md (purchaseCols (map (\<lambda>c. trim (toStr h c)) header))
                     f d rest ([], 0) = (sm, n) \<and>
                   out = sort_key (\<lambda>r. - profit r) (map snd sm)"
    by (auto simp: processArbitrage_def Let_def split: if_splits prod.splits)
  then show ?thesis by (simp add: headerCols_def hd rs)
qed

lemma arbitrageLoop_foldl:
  "fst (arbitrageLoop h md c f d rows (sm, mc)) =
     foldl (\<lambda>sm r. groupBySku r sm) sm (List.map_filter (arbitrageRow h md c f d) rows)"
  by (induction rows arbitrary: sm mc) (simp_all add: map_filter_simps split: option.splits)

lemma map_fst_mapSet:
  "map fst (mapSet k v m) = (if k \<in> fst ` set m then map fst m else map fst m @ [k])"
proof (induction m)
  case Nil
  show ?case by simp
next
  case (Cons p m)
  obtain k' v' where p: "p = (k', v')" by (cases p)
  show ?case
  proof (cases "k' = k")
    case True
    with p show ?thesis by simp
  next
    case False
    with p Cons.IH show ?thesis by (simp split: if_splits)
  qed
qed

lemma map_of_mapSet: "map_of (mapSet k v m) = (map_of m)(k \<mapsto> v)"
  by (induction m) auto

lemma grouped_Nil: "grouped [] []"
  by (simp add: grouped_def)

lemma distinct_groupBySku: "distinct (map fst sm) \<Longrightarrow> distinct (map fst (groupBySku r sm))"
  by (auto simp: groupBySku_def map_fst_mapSet split: option.splits)

lemma map_of_groupBySku:
  "map_of (groupBySku r sm) =
     (map_of sm)(productCode r \<mapsto>
        (case map_of sm (productCode r) of
           None \<Rightarrow> r
         | Some e \<Rightarrow> if profit r > profit e then r else e))"
  by (auto simp: groupBySku_def map_of_mapSet split: option.splits)

lemma grouped_step:
  assumes "grouped sm seen"
  shows "grouped (groupBySku r sm) (seen @ [r])"
  unfolding grouped_def
proof (intro conjI allI impI ballI)
  show "distinct (map fst (groupBySku r sm))"
    using assms by (simp add: grouped_def distinct_groupBySku)
next
  fix k v assume a: "map_of (groupBySku r sm) k = Some v"
  show "productCode v = k"
    using a assms by (auto simp: map_of_groupBySku grouped_def split: if_splits option.splits)
next
  fix k v assume a: "map_of (groupBySku r sm) k = Some v"
  show "v \<in> set (seen @ [r])"
    using a assms by (auto simp: map_of_groupBySku grouped_def split: if_splits option.splits)
next
  fix k v x assume a: "map_of (groupBySku r sm) k = Some v"
    and x: "x \<in> set (seen @ [r])" and k: "productCode x = k"
  show "profit x \<le> profit v"
  proof (cases "k = productCode r")
    case False
    with a x k assms show ?thesis
      by (auto simp: map_of_groupBySku grouped_def)
  next
    case True
    show ?thesis
    proof (cases "map_of sm (productCode r)")
      case None
      with assms True k have "\<forall>y\<in>set seen. productCode y \<noteq> productCode r"
        by (auto simp: grouped_def)
      with a x k True None show ?thesis
        by (auto simp: map_of_groupBySku)
    next
      case (Some e)
      with assms have "\<forall>y\<in>set seen. productCode y = productCode r \<longrightarrow> profit y \<le> profit e"
        by (auto simp: grouped_def)
      with a x k True Some show ?thesis
        by (auto simp: map_of_groupBySku split: if_splits)
    qed
  qed
next
  fix x assume "x \<in> set (seen @ [r])"
  then show "map_of (groupBySku r sm) (productCode x) \<noteq> None"
    using assms by (auto simp: map_of_groupBySku grouped_def)
qed

lemma grouped_foldl:
  "grouped sm seen \<Longrightarrow> grouped (foldl (\<lambda>sm r. groupBySku r sm) sm rs) (seen @ rs)"
proof (induction rs arbitrary: sm seen)
  case Nil
  then show ?case by simp
next
  case (Cons r rs)
  from Cons.IH [OF grouped_step [OF Cons.prems, of r]] show ?case by simp
qed

lemma grouped_rowResults:
  assumes "processArbitrage h md f d rawData = Inr (out, n)"
  shows "\<exists>sm. grouped sm (rowResults h md f d rawData) \<and>
              out = sort_key (\<lambda>r. - profit r) (map snd sm)"
proof -
  from processArbitrage_Inr [OF assms] obtain sm where
    l: "arbitrageLoop h md (headerCols h rawData) f d (dataRows h rawData) ([], 0) = (sm, n)"
    and o: "out = sort_key (\<lambda>r. - profit r) (map snd sm)" by blast
  from l have "sm = foldl (\<lambda>sm r. groupBySku r sm) [] (rowResults h md f d rawData)"
    using arbitrageLoop_foldl [of h md "headerCols h rawData" f d "dataRows h rawData" "[]" 0]
    by (simp add: rowResults_def)
  with grouped_foldl [OF grouped_Nil, of "rowResults h md f d rawData"] o
  show ?thesis by auto
qed

lemma grouped_values:
  assumes "grouped sm seen"
  shows "map productCode (map snd sm) = map fst sm"
    and "set (map snd sm) \<subseteq> set seen"
    and "\<forall>v\<in>set (map snd sm). \<forall>x\<in>set seen. productCode x = productCode v \<longrightarrow> profit x \<le> profit v"
    and "\<forall>x\<in>set seen. \<exists>v\<in>set (map snd sm). productCode v = productCode x"
proof -
  from assms have d: "distinct (map fst sm)" by (simp add: grouped_def)
  have m: "\<And>k v. (k, v) \<in> set sm \<Longrightarrow> map_of sm k = Some v"
    using d by simp
  have pc: "\<And>k v. (k, v) \<in> set sm \<Longrightarrow> productCode v = k"
    using assms m unfolding grouped_def by blast
  show "map productCode (map snd sm) = map fst sm"
    using pc by (auto simp: map_eq_conv)
  show "set (map snd sm) \<subseteq> set seen"
    using assms m unfolding grouped_def by fastforce
  show "\<forall>v\<in>set (map snd sm). \<forall>x\<in>set seen. productCode x = productCode v \<longrightarrow> profit x \<le> profit v"
  proof (intro ballI impI)
    fix v x assume v: "v \<in> set (map snd sm)" and x: "x \<in> set seen"
      and e: "productCode x = productCode v"
    from v obtain k where k: "(k, v) \<in> set sm" by auto
    from m [OF k] pc [OF k] assms x e show "profit x \<le> profit v"
      unfolding grouped_def by blast
  qed
  show "\<forall>x\<in>set seen. \<exists>v\<in>set (map snd sm). productCode v = productCode x"
  proof
    fix x assume x: "x \<in> set seen"
    with assms obtain v where v: "map_of sm (productCode x) = Some v"
      unfolding grouped_def by blast
    then have "(productCode x, v) \<in> set sm" by (rule map_of_SomeD)
    moreover from v assms have "productCode v = productCode x" unfolding grouped_def by blast
    ultimately show "\<exists>v\<in>set (map snd sm). productCode v = productCode x" by force
  qed
qed

lemma count_distinct_key:
  "distinct (map f xs) \<Longrightarrow> y \<in> set xs \<Longrightarrow> length (filter (\<lambda>r. f r = f y) xs) = 1"
proof (induction xs)
  case Nil
  then show ?case by simp
next
  case (Cons x xs)
  show ?case
  proof (cases "f x = f y")
    case True
    with Cons.prems have "f y \<notin> f ` set xs" by simp
    then have "\<forall>r\<in>set xs. f r \<noteq> f y" by (auto simp: image_iff)
    then have "filter (\<lambda>r. f r = f y) xs = []" by (simp add: filter_empty_conv)
    with True show ?thesis by simp
  next
    case False
    with Cons show ?thesis by auto
  qed
qed

lemma distinct_map_sort_key:
  "distinct (map f ys) \<Longrightarrow> distinct (map f (sort_key g ys))"
  by (simp add: distinct_map)

text \<open>
  C2.  When \<open>processArbitrage\<close> sets results, they are sorted by profit, largest first;
  no two of them have the same SKU; each of them is the result of a row and has the largest
  profit among the results of the rows with its SKU; and for every row that has a result,
  exactly one of the final results has the SKU of that row.
\<close>

theorem one_result_per_sku:
  assumes "processArbitrage h md f d rawData = Inr (out, n)"
  shows "sorted_wrt (\<lambda>a b. profit a \<ge> profit b) out \<and>
         distinct (map productCode out) \<and>
         (\<forall>res\<in>set out.
            res \<in> set (rowResults h md f d rawData) \<and>
            (\<forall>x\<in>set (rowResults h md f d rawData).
               productCode x = productCode res \<longrightarrow> profit x \<le> profit res)) \<and>
         (\<forall>x\<in>set (rowResults h md f d rawData).
            length (filter (\<lambda>res. productCode res = productCode x) out) = 1)"
proof -
  from grouped_rowResults [OF assms] obtain sm where
    g: "grouped sm (rowResults h md f d rawData)"
    and o: "out = sort_key (\<lambda>r. - profit r) (map snd sm)" by blast
  note v = grouped_values [OF g]
  have so: "set out = set (map snd sm)" using o by simp
  have "sorted (map (\<lambda>r. - profit r) out)" unfolding o by (rule sorted_sort_key)
  then have s: "sorted_wrt (\<lambda>a b. profit a \<ge> profit b) out"
    by (simp add: sorted_map)
  from g have "distinct (map productCode (map snd sm))"
    unfolding v(1) by (simp add: grouped_def)
  then have dm: "distinct (map productCode out)"
    unfolding o by (rule distinct_map_sort_key)
  have one: "\<forall>x\<in>set (rowResults h md f d rawData).
      length (filter (\<lambda>res. productCode res = productCode x) out) = 1"
  proof
    fix x assume "x \<in> set (rowResults h md f d rawData)"
    with v(4) obtain y where y: "y \<in> set out" "productCode y = productCode x"
      unfolding so by blast
    from count_distinct_key [OF dm y(1)] y(2)
    show "length (filter (\<lambda>res. productCode res = productCode x) out) = 1" by simp
  qed
  from s dm one v(2,3) so show ?thesis by auto
qed

lemma in_set_map_filter:
  "y \<in> set (List.map_filter g xs) \<longleftrightarrow> (\<exists>x\<in>set xs. g x = Some y)"
  by (induction xs) (auto simp: map_filter_simps split: option.splits)

lemma arbitrageRow_formulas:
  assumes "arbitrageRow h md c f d r = Some res"
  shows "tagPrice res = tagPriceOf h c r \<and>
         marketPrice res = marketPriceOf md (productCode res) \<and>
         costPrice res = tagPrice res * (effectiveDiscount h c r / 10) \<and>
         netRevenue res = (if marketPrice res > 0 then marketPrice res * 0.88 else 0) \<and>
         profit res = (if marketPrice res > 0 then netRevenue res - costPrice res
                       else - costPrice res) \<and>
         roi res = (if costPrice res > 0 \<and> marketPrice res > 0
                    then profit res / costPrice res else 0)"
  using assms by (auto simp: arbitrageRow_def Let_def split: if_splits)

text \<open>
  C1.  The result of a purchase row holds the tag price \<open>t\<close> read from the row and the
  market price \<open>m\<close> found in the store, and with the effective discount \<open>d\<close> of the row:
  cost price \<open>t * (d / 10)\<close>; net revenue \<open>m * 0.88\<close> when \<open>m > 0\<close>, else \<open>0\<close>;
  profit net revenue minus cost price when \<open>m > 0\<close>, else minus the cost price; ROI profit
  by cost price when both are positive, else \<open>0\<close>.  Every final result is the result of
  a row, and with market price \<open>0\<close> its profit is minus its cost price and its ROI \<open>0\<close>.
\<close>

theorem arbitrage_financials:
  "(arbitrageRow h md c f d r = Some res \<longrightarrow>
      tagPrice res = tagPriceOf h c r \<and>
      marketPrice res = marketPriceOf md (productCode res) \<and>
      costPrice res = tagPrice res * (effectiveDiscount h c r / 10) \<and>
      netRevenue res = (if marketPrice res > 0 then marketPrice res * 0.88 else 0) \<and>
      profit res = (if marketPrice res > 0 then netRevenue res - costPrice res
                    else - costPrice res) \<and>
      roi res = (if costPrice res > 0 \<and> marketPrice res > 0
                 then profit res / costPrice res else 0)) \<and>
   (processArbitrage h md f d rawData = Inr (out, n) \<longrightarrow>
      (\<forall>x\<in>set out.
         (\<exists>r\<in>set (dataRows h rawData). arbitrageRow h md (headerCols h rawData) f d r = Some x) \<and>
         (marketPrice x = 0 \<longrightarrow> profit x = - costPrice x \<and> roi x = 0)))"
proof (rule conjI)
  show "arbitrageRow h md c f d r = Some res \<longrightarrow>
      tagPrice res = tagPriceOf h c r \<and>
      marketPrice res = marketPriceOf md (productCode res) \<and>
      costPrice res = tagPrice res * (effectiveDiscount h c r / 10) \<and>
      netRevenue res = (if marketPrice res > 0 then marketPrice res * 0.88 else 0) \<and>
      profit res = (if marketPrice res > 0 then netRevenue res - costPrice res
                    else - costPrice res) \<and>
      roi res = (if costPrice res > 0 \<and> marketPrice res > 0
                 then profit res / costPrice res else 0)"
    by (rule impI) (rule arbitrageRow_formulas)
next
  show "processArbitrage h md f d rawData = Inr (out, n) \<longrightarrow>
      (\<forall>x\<in>set out.
         (\<exists>r\<in>set (dataRows h rawData). arbitrageRow h md (headerCols h rawData) f d r = Some x) \<and>
         (marketPrice x = 0 \<longrightarrow> profit x = - costPrice x \<and> roi x = 0))"
  proof (intro impI ballI)
    fix x assume p: "processArbitrage h md f d rawData = Inr (out, n)" and x: "x \<in> set out"
    from grouped_rowResults [OF p] obtain sm where
      g: "grouped sm (rowResults h md f d rawData)"
      and o: "out = sort_key (\<lambda>r. - profit r) (map snd sm)" by blast
    from x o grouped_values(2) [OF g] have "x \<in> set (rowResults h md f d rawData)" by auto
    then have r: "\<exists>r\<in>set (dataRows h rawData).
        arbitrageRow h md (headerCols h rawData) f d r = Some x"
      by (simp add: rowResults_def in_set_map_filter)
    then obtain r where "arbitrageRow h md (headerCols h rawData) f d r = Some x" by blast
    from arbitrageRow_formulas [OF this]
    have "marketPrice x = 0 \<longrightarrow> profit x = - costPrice x \<and> roi x = 0" by simp
    with r show "(\<exists>r\<in>set (dataRows h rawData).
          arbitrageRow h md (headerCols h rawData) f d r = Some x) \<and>
        (marketPrice x = 0 \<longrightarrow> profit x = - costPrice x \<and> roi x = 0)" by blast
  qed
qed

lemmas arbitrage_defs = processArbitrage_def purchaseCols_def tagPriceKeywords_def
  uploadDiscountKeywords_def uploadSalesKeywords_def arbitrageRow_def tagPriceOf_def
  effectiveDiscount_def parseDiscount_def marketPriceOf_def countOf_def storeHistory_def
  groupBySku_def

lemma discountSheet_eval:
  "\<exists>out n. processArbitrage asciiHost (marketStore 2000) (ascii ''buy.xlsx'') (ascii ''2024-01-02'')
       discountSheet = Inr (out, n) \<and>
     map (\<lambda>x. (productCode x, marketPrice x, costPrice x, netRevenue x, profit x, roi x)) out =
       [(ascii ''AB1'', 2000, 360, 1760, 1400, 1400 / 360), (ascii ''ZZ9'', 0, 360, 0, - 360, 0)]"
  by (simp add: marketStore_def discountSheet_def arbitrage_defs detect_defs extract_defs eval_defs)

lemma sizesSheet_eval:
  "\<exists>out n. processArbitrage asciiHost (marketStore 250) (ascii ''buy.xlsx'') (ascii ''2024-01-02'')
       sizesSheet = Inr (out, n) \<and>
     map (\<lambda>x. (productCode x, profit x)) out = [(ascii ''AB1'', 150), (ascii ''ZZ9'', - 10)]"
  by (simp add: marketStore_def sizesSheet_def arbitrage_defs detect_defs extract_defs eval_defs)

lemma sizesSheet_rows:
  "map (\<lambda>x. (productCode x, profit x))
     (rowResults asciiHost (marketStore 250) (ascii ''buy.xlsx'') (ascii ''2024-01-02'') sizesSheet) =
   [(ascii ''AB1'', 100), (ascii ''AB1'', 150), (ascii ''ZZ9'', - 10)]"
  by (simp add: rowResults_def headerCols_def dataRows_def map_filter_simps
      marketStore_def sizesSheet_def arbitrage_defs detect_defs extract_defs eval_defs)

lemma discountRow_eval:
  "\<exists>res. arbitrageRow asciiHost (marketStore 2000)
           \<lparr> skuIdx = 0, tagPriceIdx = 1, discountIdx = 2, salesIdx = - 1 \<rparr>
           (ascii ''buy.xlsx'') (ascii ''2024-01-02'')
           [JStr (ascii ''ab1''), JNum (Finite 1000), JStr (ascii ''3.6'')] = Some res \<and>
         productCode res = ascii ''AB1''"
  by (simp add: marketStore_def arbitrage_defs extract_defs eval_defs)

theorem arbitrage_financials_witness:
  "(\<exists>res. arbitrageRow asciiHost (marketStore 2000)
           \<lparr> skuIdx = 0, tagPriceIdx = 1, discountIdx = 2, salesIdx = - 1 \<rparr>
           (ascii ''buy.xlsx'') (ascii ''2024-01-02'')
           [JStr (ascii ''ab1''), JNum (Finite 1000), JStr (ascii ''3.6'')] = Some res \<and>
          tagPrice res = 1000 \<and> marketPrice res = 2000 \<and> costPrice res = 360 \<and>
          netRevenue res = 1760 \<and> profit res = 1400 \<and> roi res = 1400 / 360) \<and>
   (\<exists>out n. processArbitrage asciiHost (marketStore 2000) (ascii ''buy.xlsx'') (ascii ''2024-01-02'')
       discountSheet = Inr (out, n) \<and>
     map (\<lambda>x. (productCode x, marketPrice x, costPrice x, netRevenue x, profit x, roi x)) out =
       [(ascii ''AB1'', 2000, 360, 1760, 1400, 1400 / 360), (ascii ''ZZ9'', 0, 360, 0, - 360, 0)] \<and>
     list_all (\<lambda>x. marketPrice x = 0 \<longrightarrow> profit x = - costPrice x \<and> roi x = 0) out)"
proof -
  let ?c = "\<lparr> skuIdx = 0, tagPriceIdx = 1, discountIdx = 2, salesIdx = - 1 \<rparr>"
  let ?r = "[JStr (ascii ''ab1''), JNum (Finite 1000), JStr (ascii ''3.6'')]"
  from discountRow_eval obtain res where
    r: "arbitrageRow asciiHost (marketStore 2000) ?c (ascii ''buy.xlsx'') (ascii ''2024-01-02'') ?r
          = Some res"
    and pc: "productCode res = ascii ''AB1''" by blast
  have t: "tagPriceOf asciiHost ?c ?r = 1000"
    by (simp add: tagPriceOf_def eval_defs)
  have d: "effectiveDiscount asciiHost ?c ?r = 3.6"
    by (simp add: effectiveDiscount_def parseDiscount_def eval_defs)
  have m: "marketPriceOf (marketStore 2000) (ascii ''AB1'') = 2000"
    by (simp add: marketPriceOf_def marketStore_def)
  from arbitrage_financials [of asciiHost "marketStore 2000" ?c "ascii ''buy.xlsx''"
      "ascii ''2024-01-02''" ?r res] r
  have g: "tagPrice res = tagPriceOf asciiHost ?c ?r \<and>
      marketPrice res = marketPriceOf (marketStore 2000) (productCode res) \<and>
      costPrice res = tagPrice res * (effectiveDiscount asciiHost ?c ?r / 10) \<and>
      netRevenue res = (if marketPrice res > 0 then marketPrice res * 0.88 else 0) \<and>
      profit res = (if marketPrice res > 0 then netRevenue res - costPrice res
                    else - costPrice res) \<and>
      roi res = (if costPrice res > 0 \<and> marketPrice res > 0
                 then profit res / costPrice res else 0)"
    by blast
  from g t have tp: "tagPrice res = 1000" by simp
  from g m pc have mp: "marketPrice res = 2000" by simp
  from g tp d have cp: "costPrice res = 360" by simp
  from g mp have nr: "netRevenue res = 1760" by simp
  from g mp nr cp have pr: "profit res = 1400" by simp
  from g mp cp pr have ro: "roi res = 1400 / 360" by simp
  note f = tp mp cp nr pr ro
  from discountSheet_eval obtain out where "\<exists>n.
      processArbitrage asciiHost (marketStore 2000) (ascii ''buy.xlsx'') (ascii ''2024-01-02'')
          discountSheet = Inr (out, n) \<and>
      map (\<lambda>x. (productCode x, marketPrice x, costPrice x, netRevenue x, profit x, roi x)) out =
       [(ascii ''AB1'', 2000, 360, 1760, 1400, 1400 / 360), (ascii ''ZZ9'', 0, 360, 0, - 360, 0)]" ..
  then obtain n where en:
     "processArbitrage asciiHost (marketStore 2000) (ascii ''buy.xlsx'') (ascii ''2024-01-02'')
          discountSheet = Inr (out, n) \<and>
      map (\<lambda>x. (productCode x, marketPrice x, costPrice x, netRevenue x, profit x, roi x)) out =
       [(ascii ''AB1'', 2000, 360, 1760, 1400, 1400 / 360), (ascii ''ZZ9'', 0, 360, 0, - 360, 0)]" ..
  then have e: "processArbitrage asciiHost (marketStore 2000) (ascii ''buy.xlsx'')
          (ascii ''2024-01-02'') discountSheet = Inr (out, n)"
    and v: "map (\<lambda>x. (productCode x, marketPrice x, costPrice x, netRevenue x, profit x, roi x)) out =
       [(ascii ''AB1'', 2000, 360, 1760, 1400, 1400 / 360), (ascii ''ZZ9'', 0, 360, 0, - 360, 0)]"
    by (rule conjunct1, rule conjunct2)
  from arbitrage_financials [of asciiHost "marketStore 2000" _ "ascii ''buy.xlsx''"
      "ascii ''2024-01-02''" _ _ discountSheet out n] e
  have l: "list_all (\<lambda>x. marketPrice x = 0 \<longrightarrow> profit x = - costPrice x \<and> roi x = 0) out"
    by (simp add: list_all_iff)
  show ?thesis
  proof (rule conjI)
    show "\<exists>res. arbitrageRow asciiHost (marketStore 2000) ?c (ascii ''buy.xlsx'')
           (ascii ''2024-01-02'') ?r = Some res \<and>
          tagPrice res = 1000 \<and> marketPrice res = 2000 \<and> costPrice res = 360 \<and>
          netRevenue res = 1760 \<and> profit res = 1400 \<and> roi res = 1400 / 360"
      by (intro exI conjI) (rule r tp mp cp nr pr ro)+
  next
    show "\<exists>out n. processArbitrage asciiHost (marketStore 2000) (ascii ''buy.xlsx'')
         (ascii ''2024-01-02'') discountSheet = Inr (out, n) \<and>
       map (\<lambda>x. (productCode x, marketPrice x, costPrice x, netRevenue x, profit x, roi x)) out =
         [(ascii ''AB1'', 2000, 360, 1760, 1400, 1400 / 360), (ascii ''ZZ9'', 0, 360, 0, - 360, 0)] \<and>
       list_all (\<lambda>x. marketPrice x = 0 \<longrightarrow> profit x = - costPrice x \<and> roi x = 0) out"
      by (intro exI conjI) (rule e v l)+
  qed
qed

theorem one_result_per_sku_witness:
  "\<exists>out n. processArbitrage asciiHost (marketStore 250) (ascii ''buy.xlsx'') (ascii ''2024-01-02'')
       sizesSheet = Inr (out, n) \<and>
     map (\<lambda>x. (productCode x, profit x))
       (rowResults asciiHost (marketStore 250) (ascii ''buy.xlsx'') (ascii ''2024-01-02'') sizesSheet) =
       [(ascii ''AB1'', 100), (ascii ''AB1'', 150), (ascii ''ZZ9'', - 10)] \<and>
     map (\<lambda>x. (productCode x, profit x)) out = [(ascii ''AB1'', 150), (ascii ''ZZ9'', - 10)] \<and>
     sorted_wrt (\<lambda>a b. profit a \<ge> profit b) out \<and>
     distinct (map productCode out) \<and>
     length (filter (\<lambda>res. productCode res = ascii ''AB1'') out) = 1"
proof -
  let ?rows = "rowResults asciiHost (marketStore 250) (ascii ''buy.xlsx'') (ascii ''2024-01-02'') sizesSheet"
  from sizesSheet_eval obtain out where "\<exists>n.
      processArbitrage asciiHost (marketStore 250) (ascii ''buy.xlsx'') (ascii ''2024-01-02'')
          sizesSheet = Inr (out, n) \<and>
      map (\<lambda>x. (productCode x, profit x)) out = [(ascii ''AB1'', 150), (ascii ''ZZ9'', - 10)]" ..
  then obtain n where en:
     "processArbitrage asciiHost (marketStore 250) (ascii ''buy.xlsx'') (ascii ''2024-01-02'')
          sizesSheet = Inr (out, n) \<and>
      map (\<lambda>x. (productCode x, profit x)) out = [(ascii ''AB1'', 150), (ascii ''ZZ9'', - 10)]" ..
  then have e: "processArbitrage asciiHost (marketStore 250) (ascii ''buy.xlsx'')
          (ascii ''2024-01-02'') sizesSheet = Inr (out, n)"
    and v: "map (\<lambda>x. (productCode x, profit x)) out = [(ascii ''AB1'', 150), (ascii ''ZZ9'', - 10)]"
    by (rule conjunct1, rule conjunct2)
  note t = one_result_per_sku [OF e]
  from sizesSheet_rows have "(ascii ''AB1'', 100) \<in> set (map (\<lambda>x. (productCode x, profit x)) ?rows)"
    by simp
  then obtain x where x: "x \<in> set ?rows" "productCode x = ascii ''AB1''" by auto
  with t have c: "length (filter (\<lambda>res. productCode res = ascii ''AB1'') out) = 1" by auto
  from t have s: "sorted_wrt (\<lambda>a b. profit a \<ge> profit b) out"
    and dm: "distinct (map productCode out)" by blast+
  show ?thesis
    by (intro exI conjI) (rule e sizesSheet_rows v s dm c)+
qed

end
